theory Spec2Isabelle
  imports Main "HOL-Library.Word" "HOL-Library.Multiset" "HOL-Library.Product_Lexorder"
begin

unbundle bit_operations_syntax

section \<open>Data model of libfprint/fp-print.c\<close>

text \<open>
  The model follows \<^verbatim>\<open>fp-print.c\<close> for a little-endian host
  (\<^verbatim>\<open>G_BYTE_ORDER == G_LITTLE_ENDIAN\<close>): there \<^verbatim>\<open>GINT32_TO_LE\<close> is the
  identity and neither branch guarded by \<^verbatim>\<open>G_BYTE_ORDER == G_BIG_ENDIAN\<close> runs.
  C \<^verbatim>\<open>int\<close>, \<^verbatim>\<open>gint32\<close> and \<^verbatim>\<open>guint32\<close> values that are stored or
  compared bit for bit are 32-bit words; \<^verbatim>\<open>sint\<close> reads one as signed, and the
  order \<open><\<close> on words is the unsigned one.
\<close>

type_synonym guchar = "8 word"
type_synonym gint32 = "32 word"

text \<open>
  \<^verbatim>\<open>FpPrintType\<close> is declared in fpi-print.h, which lists the three values in this
  order; the integer written for each is its position.
\<close>

datatype FpPrintType = FP_PRINT_UNDEFINED | FP_PRINT_RAW | FP_PRINT_NBIS

fun FpPrintType_code :: "FpPrintType \<Rightarrow> gint32" where
  "FpPrintType_code FP_PRINT_UNDEFINED = 0"
| "FpPrintType_code FP_PRINT_RAW = 1"
| "FpPrintType_code FP_PRINT_NBIS = 2"

text \<open>
  A \<^verbatim>\<open>GVariant\<close> (GLib) is a self-describing value. The model keeps the shapes the
  file builds and reads: basic values, arrays, tuples and the variant box \<^verbatim>\<open>v\<close>.
  An array of \<^verbatim>\<open>int32\<close> (type \<^verbatim>\<open>ai\<close>) is a \<open>GV_Array\<close> of \<open>GV_Int32\<close>;
  the element type of an empty array is not represented.
\<close>

datatype GVariant =
    GV_Bool bool
  | GV_Byte guchar
  | GV_Int32 gint32
  | GV_String string
  | GV_Array "GVariant list"
  | GV_Tuple "GVariant list"
  | GV_Variant GVariant

text \<open>
  A \<^verbatim>\<open>GDate\<close> (GLib) denotes a day. A valid one is kept as its Julian day number,
  the value \<^verbatim>\<open>g_date_get_julian\<close> reads whichever representation the structure holds;
  \<open>GDate_invalid\<close> is a structure with neither representation set
  (a fresh \<^verbatim>\<open>g_date_new ()\<close>).
\<close>

datatype GDate = GDate_invalid | GDate_julian (julian_days: "32 word")

fun g_date_valid :: "GDate \<Rightarrow> bool" where
  "g_date_valid GDate_invalid = False"
| "g_date_valid (GDate_julian j) = True"

text \<open>\<^verbatim>\<open>G_DATE_BAD_JULIAN\<close> is 0.\<close>

fun g_date_get_julian :: "GDate \<Rightarrow> 32 word" where
  "g_date_get_julian GDate_invalid = 0"
| "g_date_get_julian (GDate_julian j) = j"

text \<open>
  \<^verbatim>\<open>gboolean g_date_valid_julian (guint32 julian_date)\<close> is \<^verbatim>\<open>julian_date > 0\<close>,
  an unsigned comparison.
\<close>

definition g_date_valid_julian :: "32 word \<Rightarrow> bool" where
  "g_date_valid_julian julian_date = (0 < julian_date)"

text \<open>
  \<^verbatim>\<open>GDate *g_date_new_julian (guint32 julian_day)\<close> returns \<^verbatim>\<open>NULL\<close>
  (\<^verbatim>\<open>g_return_val_if_fail\<close>) unless \<^verbatim>\<open>g_date_valid_julian (julian_day)\<close>.
\<close>

definition g_date_new_julian :: "32 word \<Rightarrow> GDate option" where
  "g_date_new_julian julian_day =
     (if g_date_valid_julian julian_day then Some (GDate_julian julian_day) else None)"

definition G_MININT32 :: gint32 where
  "G_MININT32 = 0x80000000"

text \<open>
  \<^verbatim>\<open>struct xyt_struct\<close> (nbis/include/bozorth.h): \<^verbatim>\<open>int nrows\<close> and three arrays
  \<^verbatim>\<open>int xcol[200], ycol[200], thetacol[200]\<close>.
\<close>

definition MAX_BOZORTH_MINUTIAE :: nat where
  "MAX_BOZORTH_MINUTIAE = 200"

record xyt_struct =
  nrows :: int
  xcol :: "gint32 list"
  ycol :: "gint32 list"
  thetacol :: "gint32 list"

text \<open>\<^verbatim>\<open>g_new0 (struct xyt_struct, 1)\<close>: every byte zero.\<close>

definition xyt_new0 :: xyt_struct where
  "xyt_new0 = \<lparr>nrows = 0,
               xcol = replicate MAX_BOZORTH_MINUTIAE 0,
               ycol = replicate MAX_BOZORTH_MINUTIAE 0,
               thetacol = replicate MAX_BOZORTH_MINUTIAE 0\<rparr>"

text \<open>
  The image, as far as this file reads it: its size and the detected minutiae
  (\<^verbatim>\<open>fp_image_get_minutiae\<close>, \<^verbatim>\<open>NULL\<close> before detection). The minutia type
  \<open>'m\<close> belongs to the image subsystem.
\<close>

record 'm FpImage =
  width :: int
  height :: int
  minutiae :: "'m list option"

text \<open>
  \<^verbatim>\<open>struct _FpPrint\<close>. A \<^verbatim>\<open>gchar *\<close>, \<^verbatim>\<open>GDate *\<close>, \<^verbatim>\<open>GVariant *\<close> or
  \<^verbatim>\<open>FpImage *\<close> field is an option, \<open>None\<close> for \<^verbatim>\<open>NULL\<close>. The array \<open>prints\<close>
  is allocated when the type becomes \<^verbatim>\<open>FP_PRINT_NBIS\<close> and read only under that
  type, so the \<^verbatim>\<open>NULL\<close> array of the other types is the empty list.
\<close>

record 'm FpPrint =
  type :: FpPrintType
  driver :: "string option"
  device_id :: "string option"
  device_stored :: bool
  image :: "'m FpImage option"
  finger :: int
  username :: "string option"
  description :: "string option"
  enroll_date :: "GDate option"
  data :: "GVariant option"
  prints :: "xyt_struct list"

text \<open>A freshly allocated object: every field zero.\<close>

definition fp_print_init :: "'m FpPrint" where
  "fp_print_init =
     \<lparr>type = FP_PRINT_UNDEFINED, driver = None, device_id = None, device_stored = False,
      image = None, finger = 0, username = None, description = None, enroll_date = None,
      data = None, prints = []\<rparr>"

subsection \<open>Errors and outcomes\<close>

datatype GErrorCode =
    G_IO_ERROR_INVALID_DATA
  | FP_DEVICE_ERROR_GENERAL
  | FP_DEVICE_ERROR_NOT_SUPPORTED

datatype GError = GError GErrorCode string

text \<open>
  What a call does: it returns a value, it fails with a \<^verbatim>\<open>GError\<close>, or it does not
  return (a failed \<^verbatim>\<open>g_assert\<close>, or a \<^verbatim>\<open>NULL\<close> or wrongly typed value handed
  to GLib).
\<close>

datatype 'a outcome = Returned 'a | Failed GError | Aborted

subsection \<open>Properties\<close>

text \<open>A property id together with the value the \<^verbatim>\<open>GValue\<close> holds for it.\<close>

datatype property =
    PROP_0
  | PROP_DRIVER "string option"
  | PROP_DEVICE_ID "string option"
  | PROP_DEVICE_STORED bool
  | PROP_IMAGE
  | PROP_FINGER int
  | PROP_USERNAME "string option"
  | PROP_DESCRIPTION "string option"
  | PROP_ENROLL_DATE "GDate option"
  | PROP_FPI_TYPE FpPrintType
  | PROP_FPI_DATA "GVariant option"

definition fpi_print_set_type :: "'m FpPrint \<Rightarrow> FpPrintType \<Rightarrow> 'm FpPrint" where
  "fpi_print_set_type print t =
     (if type print = FP_PRINT_UNDEFINED
      then print\<lparr>type := t, prints := (if t = FP_PRINT_NBIS then [] else prints print)\<rparr>
      else print)"

text \<open>
  \<^verbatim>\<open>fp_print_set_property\<close>. The cases for the username, the description and the
  enroll date release the old value with the function of its type and store the new one.
  The case \<^verbatim>\<open>PROP_FPI_DATA\<close> runs
  \<^verbatim>\<open>g_clear_pointer (&self->description, g_variant_unref)\<close>: the macro sets the
  description pointer to \<^verbatim>\<open>NULL\<close> and, when it held a string, hands that
  \<^verbatim>\<open>gchar *\<close> to \<^verbatim>\<open>g_variant_unref\<close>, which takes a \<^verbatim>\<open>GVariant *\<close>. That
  is a wrongly typed value handed to GLib, with undefined behaviour: the call is
  \<open>Aborted\<close>. With no description set nothing is released and the raw data is stored.
\<close>

fun fp_print_set_property :: "'m FpPrint \<Rightarrow> property \<Rightarrow> 'm FpPrint outcome" where
  "fp_print_set_property self (PROP_FPI_TYPE t) = Returned (fpi_print_set_type self t)"
| "fp_print_set_property self (PROP_DRIVER v) = Returned (self\<lparr>driver := v\<rparr>)"
| "fp_print_set_property self (PROP_DEVICE_ID v) = Returned (self\<lparr>device_id := v\<rparr>)"
| "fp_print_set_property self (PROP_DEVICE_STORED v) = Returned (self\<lparr>device_stored := v\<rparr>)"
| "fp_print_set_property self (PROP_FINGER v) = Returned (self\<lparr>finger := v\<rparr>)"
| "fp_print_set_property self (PROP_USERNAME v) = Returned (self\<lparr>username := v\<rparr>)"
| "fp_print_set_property self (PROP_DESCRIPTION v) = Returned (self\<lparr>description := v\<rparr>)"
| "fp_print_set_property self (PROP_ENROLL_DATE v) = Returned (self\<lparr>enroll_date := v\<rparr>)"
| "fp_print_set_property self (PROP_FPI_DATA v) =
     (case description self of
        None \<Rightarrow> Returned (self\<lparr>description := None, data := v\<rparr>)
      | Some str \<Rightarrow> Aborted)"
| "fp_print_set_property self PROP_IMAGE = Returned self"
| "fp_print_set_property self PROP_0 = Returned self"

text \<open>Setting a list of properties in order; the first call that does not return ends it.\<close>

fun set_properties :: "'m FpPrint \<Rightarrow> property list \<Rightarrow> 'm FpPrint outcome" where
  "set_properties obj [] = Returned obj"
| "set_properties obj (p # ps) =
     (case fp_print_set_property obj p of
        Returned obj' \<Rightarrow> set_properties obj' ps
      | Failed e \<Rightarrow> Failed e
      | Aborted \<Rightarrow> Aborted)"

text \<open>
  \<^verbatim>\<open>fp_print_constructed\<close>: the two assertions of the constructor hook.
\<close>

definition fp_print_constructed :: "'m FpPrint \<Rightarrow> bool" where
  "fp_print_constructed self = (driver self \<noteq> None \<and> device_id self \<noteq> None)"

text \<open>
  \<^verbatim>\<open>g_object_new (FP_TYPE_PRINT, name, value, ..., NULL)\<close>: the listed properties
  are set on a fresh object, and the constructor hook aborts the program when one of its
  assertions fails. (GObject's own checks of a value against the property's declared
  range are not part of this file and are not modelled.)
\<close>

definition g_object_new :: "property list \<Rightarrow> 'm FpPrint outcome" where
  "g_object_new props =
     (case set_properties fp_print_init props of
        Returned obj \<Rightarrow> if fp_print_constructed obj then Returned obj else Aborted
      | Failed e \<Rightarrow> Failed e
      | Aborted \<Rightarrow> Aborted)"

text \<open>\<^verbatim>\<open>g_object_set (object, name, value, ..., NULL)\<close>.\<close>

definition g_object_set :: "'m FpPrint \<Rightarrow> property list \<Rightarrow> 'm FpPrint outcome" where
  "g_object_set obj props = set_properties obj props"

section \<open>The minutiae encoder\<close>

text \<open>\<^verbatim>\<open>struct minutiae_struct { int col[4]; }\<close> (nbis/include/bozorth.h).\<close>

record minutiae_struct =
  col :: "gint32 list"

text \<open>
  \<^verbatim>\<open>minutiae_to_xyt\<close>; \<open>minutiae_list\<close> is \<^verbatim>\<open>minutiae->list\<close>, of
  \<^verbatim>\<open>minutiae->num\<close> entries. Three routines it calls live outside this file and are
  parameters:
  \<^item> \<open>lfs2nist_minutia_XYT minutia bwidth bheight\<close> gives the transformed
    \<open>(x, y, theta)\<close> of a minutia (nbis);
  \<^item> \<open>sround_reliability minutia\<close> is \<^verbatim>\<open>sround (minutia->reliability * 100.0)\<close>,
    a rounded floating-point product that only fills \<^verbatim>\<open>col[3]\<close>;
  \<^item> \<open>qsort_sort_x_y c\<close> is the array after the C library's \<^verbatim>\<open>qsort\<close> with the
    comparison \<^verbatim>\<open>sort_x_y\<close> (nbis).
  The first loop fills \<^verbatim>\<open>c[0..nmin-1]\<close>, the second copies the sorted rows into the
  first \<^verbatim>\<open>nmin\<close> slots of the three columns and leaves the other slots as they were.
\<close>

definition minutiae_to_xyt ::
  "('m \<Rightarrow> int \<Rightarrow> int \<Rightarrow> gint32 \<times> gint32 \<times> gint32) \<Rightarrow> ('m \<Rightarrow> gint32) \<Rightarrow>
   (minutiae_struct list \<Rightarrow> minutiae_struct list) \<Rightarrow>
   'm list \<Rightarrow> int \<Rightarrow> int \<Rightarrow> xyt_struct \<Rightarrow> xyt_struct" where
  "minutiae_to_xyt lfs2nist_minutia_XYT sround_reliability qsort_sort_x_y
       minutiae_list bwidth bheight xyt =
     (let nmin = min (length minutiae_list) MAX_BOZORTH_MINUTIAE;
          c = map (\<lambda>minutia.
                 case lfs2nist_minutia_XYT minutia bwidth bheight of
                   (ox, oy, ot) \<Rightarrow>
                     \<lparr>col = [ox, oy, (if 180 <s ot then ot - 360 else ot),
                             sround_reliability minutia]\<rparr>)
                (take nmin minutiae_list);
          c' = qsort_sort_x_y c
      in xyt\<lparr>xcol := map (\<lambda>i. col (c' ! i) ! 0) [0..<nmin] @ drop nmin (xcol xyt),
             ycol := map (\<lambda>i. col (c' ! i) ! 1) [0..<nmin] @ drop nmin (ycol xyt),
             thetacol := map (\<lambda>i. col (c' ! i) ! 2) [0..<nmin] @ drop nmin (thetacol xyt),
             nrows := int nmin\<rparr>)"

definition cannot_add_from_image :: GError where
  "cannot_add_from_image =
     GError G_IO_ERROR_INVALID_DATA ''Cannot add print data from image!''"

definition no_minutiae_found :: GError where
  "no_minutiae_found =
     GError G_IO_ERROR_INVALID_DATA ''No minutiae found in image or not yet detected!''"

text \<open>
  \<^verbatim>\<open>fpi_print_add_from_image\<close>: \<open>Returned\<close> carries the print as the call leaves
  it when it returns \<^verbatim>\<open>TRUE\<close>; \<open>Failed\<close> is \<^verbatim>\<open>FALSE\<close> with the error set.
\<close>

definition fpi_print_add_from_image ::
  "('m \<Rightarrow> int \<Rightarrow> int \<Rightarrow> gint32 \<times> gint32 \<times> gint32) \<Rightarrow> ('m \<Rightarrow> gint32) \<Rightarrow>
   (minutiae_struct list \<Rightarrow> minutiae_struct list) \<Rightarrow>
   'm FpPrint \<Rightarrow> 'm FpImage option \<Rightarrow> 'm FpPrint outcome" where
  "fpi_print_add_from_image lfs2nist_minutia_XYT sround_reliability qsort_sort_x_y
       print image_arg =
     (if type print \<noteq> FP_PRINT_NBIS \<or> image_arg = None
      then Failed cannot_add_from_image
      else
        (case image_arg of
           None \<Rightarrow> Failed cannot_add_from_image
         | Some img \<Rightarrow>
             (case minutiae img of
                None \<Rightarrow> Failed no_minutiae_found
              | Some ms \<Rightarrow>
                  if length ms = 0 then Failed no_minutiae_found
                  else
                    Returned
                      (print\<lparr>prints :=
                               prints print @
                               [minutiae_to_xyt lfs2nist_minutia_XYT sround_reliability
                                  qsort_sort_x_y ms (width img) (height img) xyt_new0],
                             image := Some img\<rparr>))))"

section \<open>The matcher\<close>

text \<open>\<^verbatim>\<open>FpiMatchResult\<close> (fpi-print.h).\<close>

datatype FpiMatchResult = FPI_MATCH_ERROR | FPI_MATCH_FAIL | FPI_MATCH_SUCCESS

text \<open>
  The loop of \<^verbatim>\<open>fpi_print_bz3_match\<close> over the stored prints, from the first on;
  \<open>score gstruct\<close> is \<^verbatim>\<open>bozorth_to_gallery (probe_len, pstruct, gstruct)\<close>.
\<close>

fun bz3_gallery_loop :: "(xyt_struct \<Rightarrow> int) \<Rightarrow> int \<Rightarrow> xyt_struct list \<Rightarrow> FpiMatchResult" where
  "bz3_gallery_loop score bz3_threshold [] = FPI_MATCH_FAIL"
| "bz3_gallery_loop score bz3_threshold (gstruct # rest) =
     (if score gstruct \<ge> bz3_threshold then FPI_MATCH_SUCCESS
      else bz3_gallery_loop score bz3_threshold rest)"

definition only_nbis_match :: GError where
  "only_nbis_match =
     GError FP_DEVICE_ERROR_NOT_SUPPORTED ''It is only possible to match NBIS type print data''"

definition more_than_one_print :: GError where
  "more_than_one_print =
     GError FP_DEVICE_ERROR_GENERAL ''New print contains more than one print!''"

text \<open>
  \<^verbatim>\<open>fpi_print_bz3_match\<close>: the result and the error it sets. The scoring routines
  \<^verbatim>\<open>bozorth_probe_init\<close> and \<^verbatim>\<open>bozorth_to_gallery\<close> (nbis) are parameters.
\<close>

definition fpi_print_bz3_match ::
  "(xyt_struct \<Rightarrow> int) \<Rightarrow> (int \<Rightarrow> xyt_struct \<Rightarrow> xyt_struct \<Rightarrow> int) \<Rightarrow>
   'm FpPrint \<Rightarrow> 'm FpPrint \<Rightarrow> int \<Rightarrow> FpiMatchResult \<times> GError option" where
  "fpi_print_bz3_match bozorth_probe_init bozorth_to_gallery template print bz3_threshold =
     (if type template \<noteq> FP_PRINT_NBIS \<or> type print \<noteq> FP_PRINT_NBIS
      then (FPI_MATCH_ERROR, Some only_nbis_match)
      else if length (prints print) \<noteq> 1
      then (FPI_MATCH_ERROR, Some more_than_one_print)
      else
        (let pstruct = prints print ! 0;
             probe_len = bozorth_probe_init pstruct
         in (bz3_gallery_loop (bozorth_to_gallery probe_len pstruct) bz3_threshold
               (prints template), None)))"

section \<open>Equality\<close>

text \<open>
  The loop of \<^verbatim>\<open>fp_print_equal\<close>: \<^verbatim>\<open>memcmp\<close> over the whole
  \<^verbatim>\<open>struct xyt_struct\<close> (the row count and all slots of the three columns; the
  structure has no padding bytes) is equality of the records. The loop runs only on two
  arrays of the same length.
\<close>

fun prints_memcmp_loop :: "xyt_struct list \<Rightarrow> xyt_struct list \<Rightarrow> bool" where
  "prints_memcmp_loop [] bs = True"
| "prints_memcmp_loop (a # as) [] = True"
| "prints_memcmp_loop (a # as) (b # bs) =
     (if a \<noteq> b then False else prints_memcmp_loop as bs)"

text \<open>
  \<^verbatim>\<open>fp_print_equal\<close>. \<^verbatim>\<open>g_return_val_if_fail\<close> returns \<^verbatim>\<open>FALSE\<close>;
  \<^verbatim>\<open>g_strcmp0\<close> compares two possibly \<^verbatim>\<open>NULL\<close> strings;
  \<^verbatim>\<open>g_variant_equal\<close> returns \<^verbatim>\<open>FALSE\<close> when handed \<^verbatim>\<open>NULL\<close>. With the
  type neither undefined nor raw it is \<^verbatim>\<open>FP_PRINT_NBIS\<close>, so
  \<^verbatim>\<open>g_assert_not_reached\<close> is not reached.
\<close>

definition fp_print_equal :: "'m FpPrint \<Rightarrow> 'm FpPrint \<Rightarrow> bool" where
  "fp_print_equal self other =
     (if type self = FP_PRINT_UNDEFINED then False
      else if type other = FP_PRINT_UNDEFINED then False
      else if type self \<noteq> type other then False
      else if driver self \<noteq> driver other then False
      else if device_id self \<noteq> device_id other then False
      else if type self = FP_PRINT_RAW then
        (case (data self, data other) of
           (Some one, Some two) \<Rightarrow> one = two
         | _ \<Rightarrow> False)
      else if length (prints self) \<noteq> length (prints other) then False
      else prints_memcmp_loop (prints self) (prints other))"

section \<open>The binary codec\<close>

text \<open>
  The body of a stored print has the type \<^verbatim>\<open>(issbymsmsia{sv}v)\<close>. \<open>print_variant\<close>
  is a value of that type, field by field as \<^verbatim>\<open>g_variant_get\<close> reads it;
  \<open>pv_print_data\<close> is the value inside the final \<^verbatim>\<open>v\<close>, of any shape.
\<close>

record print_variant =
  pv_type :: gint32
  pv_driver :: string
  pv_device_id :: string
  pv_device_stored :: bool
  pv_finger :: guchar
  pv_username :: "string option"
  pv_description :: "string option"
  pv_julian_date :: gint32
  pv_expansion :: "(string \<times> GVariant) list"
  pv_print_data :: GVariant

definition FP3 :: "guchar list" where
  "FP3 = [0x46, 0x50, 0x33]"

text \<open>
  One print of the \<^verbatim>\<open>a(aiaiai)\<close> array: three \<^verbatim>\<open>int32\<close> arrays holding the
  first \<^verbatim>\<open>nrows\<close> entries of each column.
\<close>

definition xyt_to_variant :: "xyt_struct \<Rightarrow> GVariant" where
  "xyt_to_variant xyt =
     GV_Tuple
       [GV_Array (map (\<lambda>j. GV_Int32 (xcol xyt ! j)) [0..<nat (nrows xyt)]),
        GV_Array (map (\<lambda>j. GV_Int32 (ycol xyt ! j)) [0..<nat (nrows xyt)]),
        GV_Array (map (\<lambda>j. GV_Int32 (thetacol xyt ! j)) [0..<nat (nrows xyt)])]"

text \<open>
  The tuple \<^verbatim>\<open>fp_print_serialize\<close> builds. A \<^verbatim>\<open>NULL\<close> driver, device id or raw
  value handed to the builder does not give a value (\<open>None\<close>).
\<close>

definition fp_print_build_variant :: "'m FpPrint \<Rightarrow> print_variant option" where
  "fp_print_build_variant print =
     (case driver print of
        None \<Rightarrow> None
      | Some drv \<Rightarrow>
          (case device_id print of
             None \<Rightarrow> None
           | Some dev \<Rightarrow>
               (case (if type print = FP_PRINT_NBIS
                      then Some (GV_Tuple [GV_Array (map xyt_to_variant (prints print))])
                      else map_option GV_Variant (data print)) of
                  None \<Rightarrow> None
                | Some payload \<Rightarrow>
                    Some \<lparr>pv_type = FpPrintType_code (type print),
                          pv_driver = drv,
                          pv_device_id = dev,
                          pv_device_stored = device_stored print,
                          pv_finger = word_of_int (finger print),
                          pv_username = username print,
                          pv_description = description print,
                          pv_julian_date =
                            (case enroll_date print of
                               None \<Rightarrow> G_MININT32
                             | Some d \<Rightarrow>
                                 if g_date_valid d then g_date_get_julian d else G_MININT32),
                          pv_expansion = [],
                          pv_print_data = payload\<rparr>)))"

text \<open>
  \<^verbatim>\<open>fp_print_serialize\<close>: the three header bytes, then the bytes GLib stores for the
  tuple (\<^verbatim>\<open>g_variant_store\<close>, a parameter). The only \<^verbatim>\<open>return\<close> of the function
  is \<^verbatim>\<open>return TRUE\<close>; \<open>Returned\<close> carries the buffer.
\<close>

definition fp_print_serialize ::
  "(print_variant \<Rightarrow> guchar list) \<Rightarrow> 'm FpPrint \<Rightarrow> guchar list outcome" where
  "fp_print_serialize g_variant_store print =
     (case fp_print_build_variant print of
        None \<Rightarrow> Aborted
      | Some result \<Rightarrow> Returned (FP3 @ g_variant_store result))"

text \<open>
  Reading a \<^verbatim>\<open>GVariant\<close>: the children of a container, one child by index, and
  \<^verbatim>\<open>g_variant_get_fixed_array\<close> for elements of four bytes. \<open>None\<close> stands for a
  call GLib does not answer (the value is not a container, the index is out of range,
  the value is not an array of \<^verbatim>\<open>int32\<close>).
\<close>

fun g_variant_children :: "GVariant \<Rightarrow> GVariant list option" where
  "g_variant_children (GV_Array vs) = Some vs"
| "g_variant_children (GV_Tuple vs) = Some vs"
| "g_variant_children (GV_Variant v) = Some [v]"
| "g_variant_children (GV_Bool b) = None"
| "g_variant_children (GV_Byte b) = None"
| "g_variant_children (GV_Int32 i) = None"
| "g_variant_children (GV_String s) = None"

definition g_variant_get_child_value :: "GVariant \<Rightarrow> nat \<Rightarrow> GVariant option" where
  "g_variant_get_child_value v index =
     (case g_variant_children v of
        None \<Rightarrow> None
      | Some vs \<Rightarrow> if index < length vs then Some (vs ! index) else None)"

fun int32_elements :: "GVariant list \<Rightarrow> gint32 list option" where
  "int32_elements [] = Some []"
| "int32_elements (GV_Int32 i # vs) = map_option ((#) i) (int32_elements vs)"
| "int32_elements (v # vs) = None"

fun g_variant_get_fixed_array :: "GVariant \<Rightarrow> gint32 list option" where
  "g_variant_get_fixed_array (GV_Array vs) = int32_elements vs"
| "g_variant_get_fixed_array v = None"

definition invalid_format :: GError where
  "invalid_format = GError G_IO_ERROR_INVALID_DATA ''Data could not be parsed''"

text \<open>
  The loop of \<^verbatim>\<open>fp_print_deserialize\<close> over the stored prints; \<open>acc\<close> is
  \<^verbatim>\<open>result->prints\<close> so far. Each print starts as a zeroed structure and receives
  the three arrays in its first \<^verbatim>\<open>xlen\<close> slots.
\<close>

fun deserialize_prints :: "GVariant list \<Rightarrow> xyt_struct list \<Rightarrow> xyt_struct list outcome" where
  "deserialize_prints [] acc = Returned acc"
| "deserialize_prints (xyt_data # rest) acc =
     (case Option.bind (g_variant_get_child_value xyt_data 0) g_variant_get_fixed_array of
        None \<Rightarrow> Aborted
      | Some xs \<Rightarrow>
     (case Option.bind (g_variant_get_child_value xyt_data 1) g_variant_get_fixed_array of
        None \<Rightarrow> Aborted
      | Some ys \<Rightarrow>
     (case Option.bind (g_variant_get_child_value xyt_data 2) g_variant_get_fixed_array of
        None \<Rightarrow> Aborted
      | Some thetas \<Rightarrow>
          if length xs \<noteq> length ys \<or> length xs \<noteq> length thetas then Failed invalid_format
          else if length xs > MAX_BOZORTH_MINUTIAE then Failed invalid_format
          else
            deserialize_prints rest
              (acc @
               [xyt_new0\<lparr>nrows := int (length xs),
                         xcol := xs @ drop (length xs) (xcol xyt_new0),
                         ycol := ys @ drop (length xs) (ycol xyt_new0),
                         thetacol := thetas @ drop (length xs) (thetacol xyt_new0)\<rparr>]))))"

text \<open>The branch of \<^verbatim>\<open>fp_print_deserialize\<close> for \<^verbatim>\<open>type == FP_PRINT_NBIS\<close>.\<close>

definition deserialize_nbis :: "print_variant \<Rightarrow> 'm FpPrint outcome" where
  "deserialize_nbis v =
     (case g_variant_get_child_value (pv_print_data v) 0 of
        None \<Rightarrow> Aborted
      | Some prints_v \<Rightarrow>
          (case g_object_new [PROP_DRIVER (Some (pv_driver v)),
                              PROP_DEVICE_ID (Some (pv_device_id v)),
                              PROP_DEVICE_STORED (pv_device_stored v)] of
             Aborted \<Rightarrow> Aborted
           | Failed e \<Rightarrow> Failed e
           | Returned obj \<Rightarrow>
               (let result = fpi_print_set_type obj FP_PRINT_NBIS
                in case g_variant_children prints_v of
                     None \<Rightarrow> Aborted
                   | Some children \<Rightarrow>
                       (case deserialize_prints children (prints result) of
                          Aborted \<Rightarrow> Aborted
                        | Failed e \<Rightarrow> Failed e
                        | Returned ps \<Rightarrow> Returned (result\<lparr>prints := ps\<rparr>)))))"

text \<open>The branch for \<^verbatim>\<open>type == FP_PRINT_RAW\<close>.\<close>

definition deserialize_raw :: "print_variant \<Rightarrow> 'm FpPrint outcome" where
  "deserialize_raw v =
     (case g_variant_get_child_value (pv_print_data v) 0 of
        None \<Rightarrow> Aborted
      | Some fp_data \<Rightarrow>
          g_object_new [PROP_FPI_TYPE FP_PRINT_RAW,
                        PROP_DRIVER (Some (pv_driver v)),
                        PROP_DEVICE_ID (Some (pv_device_id v)),
                        PROP_DEVICE_STORED (pv_device_stored v),
                        PROP_FPI_DATA (Some fp_data)])"

text \<open>
  \<^verbatim>\<open>fp_print_deserialize\<close>. The parameter \<open>g_variant_new_from_data\<close> is GLib's
  reading of the bytes after the header as a value of the tuple type, brought to normal
  form and taken apart by \<^verbatim>\<open>g_variant_get\<close>; \<open>None\<close> is a \<^verbatim>\<open>NULL\<close> result.
  \<open>Returned\<close> carries the new print, \<open>Failed\<close> is the \<^verbatim>\<open>invalid_format\<close> exit,
  \<open>Aborted\<close> a failed \<^verbatim>\<open>g_assert\<close> or a payload the GLib readers do not answer.
\<close>

definition fp_print_deserialize ::
  "(guchar list \<Rightarrow> print_variant option) \<Rightarrow> guchar list \<Rightarrow> 'm FpPrint outcome" where
  "fp_print_deserialize g_variant_new_from_data data_arg =
     (if \<not> length data_arg > 3 then Aborted
      else if take 3 data_arg \<noteq> FP3 then Failed invalid_format
      else
        (case g_variant_new_from_data (drop 3 data_arg) of
           None \<Rightarrow> Failed invalid_format
         | Some v \<Rightarrow>
             (case (if pv_type v = FpPrintType_code FP_PRINT_NBIS then deserialize_nbis v
                    else if pv_type v = FpPrintType_code FP_PRINT_RAW then deserialize_raw v
                    else Failed invalid_format) of
                Aborted \<Rightarrow> Aborted
              | Failed e \<Rightarrow> Failed e
              | Returned result \<Rightarrow>
                  g_object_set result
                    [PROP_FINGER (uint (pv_finger v)),
                     PROP_USERNAME (pv_username v),
                     PROP_DESCRIPTION (pv_description v),
                     PROP_ENROLL_DATE (g_date_new_julian (pv_julian_date v))])))"

section \<open>The shape of a stored print\<close>

text \<open>
  Every \<^verbatim>\<open>struct xyt_struct\<close> this file creates starts zeroed (\<^verbatim>\<open>g_new0\<close>) and
  has its first \<^verbatim>\<open>nrows\<close> slots written, with \<^verbatim>\<open>nrows\<close> at most 200: the
  three columns have their 200 slots, and the slots from \<^verbatim>\<open>nrows\<close> on are zero.
\<close>

definition xyt_valid :: "xyt_struct \<Rightarrow> bool" where
  "xyt_valid xyt =
     (0 \<le> nrows xyt \<and> nrows xyt \<le> int MAX_BOZORTH_MINUTIAE
      \<and> length (xcol xyt) = MAX_BOZORTH_MINUTIAE
      \<and> length (ycol xyt) = MAX_BOZORTH_MINUTIAE
      \<and> length (thetacol xyt) = MAX_BOZORTH_MINUTIAE
      \<and> drop (nat (nrows xyt)) (xcol xyt) = replicate (MAX_BOZORTH_MINUTIAE - nat (nrows xyt)) 0
      \<and> drop (nat (nrows xyt)) (ycol xyt) = replicate (MAX_BOZORTH_MINUTIAE - nat (nrows xyt)) 0
      \<and> drop (nat (nrows xyt)) (thetacol xyt)
          = replicate (MAX_BOZORTH_MINUTIAE - nat (nrows xyt)) 0)"

section \<open>Sample values\<close>

text \<open>
  Concrete prints, images and stand-ins for the outside routines, used to run the
  functions above on explicit inputs.
\<close>

definition sample_nbis_print :: "xyt_struct list \<Rightarrow> (gint32 \<times> gint32 \<times> gint32) FpPrint" where
  "sample_nbis_print ps =
     fp_print_init\<lparr>type := FP_PRINT_NBIS, driver := Some ''driver'',
                   device_id := Some ''device'', prints := ps\<rparr>"

definition sample_raw_print :: "(gint32 \<times> gint32 \<times> gint32) FpPrint" where
  "sample_raw_print =
     fp_print_init\<lparr>type := FP_PRINT_RAW, driver := Some ''driver'',
                   device_id := Some ''device'', finger := 7, username := Some ''user'',
                   data := Some (GV_String ''template'')\<rparr>"

definition sample_described_print :: "(gint32 \<times> gint32 \<times> gint32) FpPrint" where
  "sample_described_print = sample_raw_print\<lparr>description := Some ''thumb''\<rparr>"

definition sample_undefined_print :: "(gint32 \<times> gint32 \<times> gint32) FpPrint" where
  "sample_undefined_print =
     fp_print_init\<lparr>driver := Some ''driver'', device_id := Some ''device'',
                   data := Some (GV_String ''template'')\<rparr>"

text \<open>A scoring stand-in: 100 when the stored print has as many rows as the probe, else 0.\<close>

definition sample_probe_init :: "xyt_struct \<Rightarrow> int" where
  "sample_probe_init pstruct = nrows pstruct"

definition sample_to_gallery :: "int \<Rightarrow> xyt_struct \<Rightarrow> xyt_struct \<Rightarrow> int" where
  "sample_to_gallery probe_len pstruct gstruct = (if nrows gstruct = probe_len then 100 else 0)"

text \<open>
  Stand-ins for the image subsystem: a minutia is already its transformed triple, the
  reliability rounds to 50, and the rows are sorted by \<open>x\<close>, then \<open>y\<close>.
\<close>

definition sample_lfs2nist ::
  "gint32 \<times> gint32 \<times> gint32 \<Rightarrow> int \<Rightarrow> int \<Rightarrow> gint32 \<times> gint32 \<times> gint32" where
  "sample_lfs2nist minutia bwidth bheight = minutia"

definition sample_sround :: "gint32 \<times> gint32 \<times> gint32 \<Rightarrow> gint32" where
  "sample_sround minutia = 50"

definition sample_qsort :: "minutiae_struct list \<Rightarrow> minutiae_struct list" where
  "sample_qsort c = sort_key (\<lambda>m. (sint (col m ! 0), sint (col m ! 1))) c"

definition sample_image :: "(gint32 \<times> gint32 \<times> gint32) FpImage" where
  "sample_image = \<lparr>width = 100, height = 100,
                   minutiae = Some [(30, 4, 190), (10, 8, 180), (20, 6, 45)]\<rparr>"

text \<open>
  Stand-ins for GLib's stored form: one byte for a tuple, and a reader that knows the
  stored form of \<open>sample_raw_print\<close> only.
\<close>

definition sample_store :: "print_variant \<Rightarrow> guchar list" where
  "sample_store v = [pv_finger v]"

definition sample_new_from_data :: "guchar list \<Rightarrow> print_variant option" where
  "sample_new_from_data bytes =
     (if bytes = [7] then fp_print_build_variant sample_raw_print else None)"

text \<open>
  A stored body of type \<^verbatim>\<open>FP_PRINT_NBIS\<close> whose single print has an \<open>x\<close> array of
  two entries and a \<open>y\<close> array of one.
\<close>

definition sample_mismatched_variant :: print_variant where
  "sample_mismatched_variant =
     \<lparr>pv_type = 2, pv_driver = ''driver'', pv_device_id = ''device'',
      pv_device_stored = False, pv_finger = 0, pv_username = None, pv_description = None,
      pv_julian_date = G_MININT32, pv_expansion = [],
      pv_print_data =
        GV_Tuple [GV_Array [GV_Tuple [GV_Array [GV_Int32 1, GV_Int32 2],
                                      GV_Array [GV_Int32 3],
                                      GV_Array [GV_Int32 4, GV_Int32 5]]]]\<rparr>"

section \<open>Setting the private raw-data property\<close>

text \<open>
  C10. Storing a value into the private raw-data property \<^verbatim>\<open>fp-data\<close>
  (\<^verbatim>\<open>PROP_FPI_DATA\<close>) of a print that has no description returns with the raw data
  equal to the stored value and every other field, the description included, as it
  was. On a print that has a description the call does not return a print with the
  description unset: the string is handed to \<^verbatim>\<open>g_variant_unref\<close> and the call is
  \<open>Aborted\<close>.
\<close>

theorem set_fpi_data_outcome:
  "(description self = None \<longrightarrow>
      (\<exists>self'. fp_print_set_property self (PROP_FPI_DATA v) = Returned self'
         \<and> description self' = None \<and> data self' = v
         \<and> type self' = type self \<and> driver self' = driver self
         \<and> device_id self' = device_id self \<and> device_stored self' = device_stored self
         \<and> image self' = image self \<and> finger self' = finger self
         \<and> username self' = username self \<and> enroll_date self' = enroll_date self
         \<and> prints self' = prints self))
   \<and> (description self \<noteq> None \<longrightarrow>
        fp_print_set_property self (PROP_FPI_DATA v) = Aborted)"
  by (cases "description self") simp_all

text \<open>
  The raw sample print with the description \<open>thumb\<close>: storing new raw data does not
  return. Without the description it returns, the description still unset.
\<close>

theorem set_fpi_data_outcome_witness:
  "description sample_described_print = Some ''thumb''
   \<and> fp_print_set_property sample_described_print (PROP_FPI_DATA (Some (GV_String ''new'')))
       = Aborted
   \<and> description sample_raw_print = None
   \<and> (\<exists>self'. fp_print_set_property sample_raw_print (PROP_FPI_DATA (Some (GV_String ''new'')))
                 = Returned self'
         \<and> description self' = None \<and> data self' = Some (GV_String ''new''))"
proof -
  have d: "description sample_described_print = Some ''thumb''"
    and n: "description sample_raw_print = None"
    by (simp_all add: sample_described_print_def sample_raw_print_def fp_print_init_def)
  note a = set_fpi_data_outcome [of sample_described_print "Some (GV_String ''new'')"]
  note b = set_fpi_data_outcome [of sample_raw_print "Some (GV_String ''new'')"]
  from a d have 1:
    "fp_print_set_property sample_described_print (PROP_FPI_DATA (Some (GV_String ''new'')))
       = Aborted"
    by simp
  from b n obtain self' where
    "fp_print_set_property sample_raw_print (PROP_FPI_DATA (Some (GV_String ''new'')))
       = Returned self'"
    "description self' = None" "data self' = Some (GV_String ''new'')"
    by auto
  then have 2: "\<exists>self'. fp_print_set_property sample_raw_print
                   (PROP_FPI_DATA (Some (GV_String ''new''))) = Returned self'
         \<and> description self' = None \<and> data self' = Some (GV_String ''new'')"
    by (intro exI [of _ self']) simp
  from d 1 n 2 show ?thesis by (simp only: simp_thms)
qed

section \<open>Matching\<close>

lemma bz3_gallery_loop_success:
  "bz3_gallery_loop score thr gs = FPI_MATCH_SUCCESS \<longleftrightarrow> (\<exists>g\<in>set gs. thr \<le> score g)"
  by (induction gs) auto

lemma bz3_gallery_loop_fail:
  "bz3_gallery_loop score thr gs = FPI_MATCH_FAIL \<longleftrightarrow> (\<forall>g\<in>set gs. score g < thr)"
  by (induction gs) auto

lemma bz3_gallery_loop_no_error:
  "bz3_gallery_loop score thr gs \<noteq> FPI_MATCH_ERROR"
  by (induction gs) auto

lemma bz3_gallery_loop_prefix:
  assumes "i < length gs" and "thr \<le> score (gs ! i)"
  shows "bz3_gallery_loop score thr (take (Suc i) gs @ rest) = FPI_MATCH_SUCCESS"
proof -
  have "gs ! i \<in> set (take (Suc i) gs)"
    using assms(1) by (metis in_set_conv_nth length_take lessI min_less_iff_conj nth_take)
  then show ?thesis
    using assms(2) by (auto simp: bz3_gallery_loop_success)
qed

text \<open>
  C5. For a template print and a probe print both of type \<^verbatim>\<open>FP_PRINT_NBIS\<close>, the
  probe holding exactly one print, \<^verbatim>\<open>fpi_print_bz3_match\<close> returns
  \<^verbatim>\<open>FPI_MATCH_SUCCESS\<close> (and sets no error) exactly when some stored print scores at
  least the threshold against the probe, and \<^verbatim>\<open>FPI_MATCH_FAIL\<close> exactly when every
  stored print scores below it. The scan stops at the first print that qualifies: once
  the print at position \<open>i\<close> qualifies, whatever follows it in the array does not change
  the result.
\<close>

theorem bz3_match_first_qualifying:
  assumes "type template = FP_PRINT_NBIS" and "type print = FP_PRINT_NBIS"
    and "length (prints print) = 1"
  shows
    "(fpi_print_bz3_match probe_init to_gallery template print thr = (FPI_MATCH_SUCCESS, None)
        \<longleftrightarrow> (\<exists>g\<in>set (prints template).
               thr \<le> to_gallery (probe_init (prints print ! 0)) (prints print ! 0) g))
     \<and> (fpi_print_bz3_match probe_init to_gallery template print thr = (FPI_MATCH_FAIL, None)
        \<longleftrightarrow> (\<forall>g\<in>set (prints template).
               to_gallery (probe_init (prints print ! 0)) (prints print ! 0) g < thr))
     \<and> (\<forall>i rest. i < length (prints template)
            \<and> thr \<le> to_gallery (probe_init (prints print ! 0)) (prints print ! 0)
                      (prints template ! i)
          \<longrightarrow> fpi_print_bz3_match probe_init to_gallery
                (template\<lparr>prints := take (Suc i) (prints template) @ rest\<rparr>) print thr
              = (FPI_MATCH_SUCCESS, None))"
  using assms
  by (simp add: fpi_print_bz3_match_def Let_def bz3_gallery_loop_success
      bz3_gallery_loop_fail bz3_gallery_loop_prefix)

text \<open>
  A gallery of three prints of which only the second qualifies matches; a gallery in
  which none qualifies does not.
\<close>

theorem bz3_match_first_qualifying_witness:
  "type (sample_nbis_print [xyt_new0\<lparr>nrows := 1\<rparr>, xyt_new0\<lparr>nrows := 2\<rparr>,
                            xyt_new0\<lparr>nrows := 3\<rparr>]) = FP_PRINT_NBIS
   \<and> type (sample_nbis_print [xyt_new0\<lparr>nrows := 2\<rparr>]) = FP_PRINT_NBIS
   \<and> length (prints (sample_nbis_print [xyt_new0\<lparr>nrows := 2\<rparr>])) = 1
   \<and> fpi_print_bz3_match sample_probe_init sample_to_gallery
        (sample_nbis_print [xyt_new0\<lparr>nrows := 1\<rparr>, xyt_new0\<lparr>nrows := 2\<rparr>,
                            xyt_new0\<lparr>nrows := 3\<rparr>])
        (sample_nbis_print [xyt_new0\<lparr>nrows := 2\<rparr>]) 40 = (FPI_MATCH_SUCCESS, None)
   \<and> fpi_print_bz3_match sample_probe_init sample_to_gallery
        (sample_nbis_print [xyt_new0\<lparr>nrows := 1\<rparr>, xyt_new0\<lparr>nrows := 3\<rparr>])
        (sample_nbis_print [xyt_new0\<lparr>nrows := 2\<rparr>]) 40 = (FPI_MATCH_FAIL, None)"
proof -
  let ?probe = "sample_nbis_print [xyt_new0\<lparr>nrows := 2\<rparr>]"
  let ?hit = "sample_nbis_print [xyt_new0\<lparr>nrows := 1\<rparr>, xyt_new0\<lparr>nrows := 2\<rparr>,
                                 xyt_new0\<lparr>nrows := 3\<rparr>]"
  let ?miss = "sample_nbis_print [xyt_new0\<lparr>nrows := 1\<rparr>, xyt_new0\<lparr>nrows := 3\<rparr>]"
  have p: "type ?probe = FP_PRINT_NBIS" "length (prints ?probe) = 1"
    by (simp_all add: sample_nbis_print_def)
  have h: "type ?hit = FP_PRINT_NBIS" and m: "type ?miss = FP_PRINT_NBIS"
    by (simp_all add: sample_nbis_print_def)
  show ?thesis
    using bz3_match_first_qualifying [OF h p, of sample_probe_init sample_to_gallery 40]
      bz3_match_first_qualifying [OF m p, of sample_probe_init sample_to_gallery 40]
    by (simp add: sample_nbis_print_def sample_probe_init_def sample_to_gallery_def)
qed

text \<open>
  C6. \<^verbatim>\<open>fpi_print_bz3_match\<close> returns \<^verbatim>\<open>FPI_MATCH_ERROR\<close> with an error of code
  \<^verbatim>\<open>FP_DEVICE_ERROR_NOT_SUPPORTED\<close> whenever the template or the probe is not of type
  \<^verbatim>\<open>FP_PRINT_NBIS\<close>; with both of that type (the type is checked first) it returns
  \<^verbatim>\<open>FPI_MATCH_ERROR\<close> with code \<^verbatim>\<open>FP_DEVICE_ERROR_GENERAL\<close> whenever the probe
  does not hold exactly one print; and it returns \<^verbatim>\<open>FPI_MATCH_ERROR\<close> in no other
  case.
\<close>

theorem bz3_match_errors:
  "(type template \<noteq> FP_PRINT_NBIS \<or> type print \<noteq> FP_PRINT_NBIS
      \<longrightarrow> (\<exists>msg. fpi_print_bz3_match probe_init to_gallery template print thr
                  = (FPI_MATCH_ERROR, Some (GError FP_DEVICE_ERROR_NOT_SUPPORTED msg))))
   \<and> (type template = FP_PRINT_NBIS \<and> type print = FP_PRINT_NBIS
        \<and> length (prints print) \<noteq> 1
      \<longrightarrow> (\<exists>msg. fpi_print_bz3_match probe_init to_gallery template print thr
                  = (FPI_MATCH_ERROR, Some (GError FP_DEVICE_ERROR_GENERAL msg))))
   \<and> (fst (fpi_print_bz3_match probe_init to_gallery template print thr) = FPI_MATCH_ERROR
      \<longrightarrow> type template \<noteq> FP_PRINT_NBIS \<or> type print \<noteq> FP_PRINT_NBIS
          \<or> length (prints print) \<noteq> 1)"
  by (auto simp: fpi_print_bz3_match_def Let_def only_nbis_match_def more_than_one_print_def
      bz3_gallery_loop_no_error)

text \<open>
  A raw template gives \<^verbatim>\<open>FP_DEVICE_ERROR_NOT_SUPPORTED\<close>, a probe of two prints
  \<^verbatim>\<open>FP_DEVICE_ERROR_GENERAL\<close>, and a probe of one print against a template of type
  \<^verbatim>\<open>FP_PRINT_NBIS\<close> no error.
\<close>

theorem bz3_match_errors_witness:
  "(\<exists>msg. fpi_print_bz3_match sample_probe_init sample_to_gallery
            sample_raw_print (sample_nbis_print [xyt_new0\<lparr>nrows := 2\<rparr>]) 40
          = (FPI_MATCH_ERROR, Some (GError FP_DEVICE_ERROR_NOT_SUPPORTED msg)))
   \<and> (\<exists>msg. fpi_print_bz3_match sample_probe_init sample_to_gallery
            (sample_nbis_print [xyt_new0\<lparr>nrows := 2\<rparr>])
            (sample_nbis_print [xyt_new0\<lparr>nrows := 2\<rparr>, xyt_new0\<lparr>nrows := 2\<rparr>]) 40
          = (FPI_MATCH_ERROR, Some (GError FP_DEVICE_ERROR_GENERAL msg)))
   \<and> fst (fpi_print_bz3_match sample_probe_init sample_to_gallery
            (sample_nbis_print [xyt_new0\<lparr>nrows := 2\<rparr>])
            (sample_nbis_print [xyt_new0\<lparr>nrows := 2\<rparr>]) 40) \<noteq> FPI_MATCH_ERROR"
proof -
  let ?one = "sample_nbis_print [xyt_new0\<lparr>nrows := 2\<rparr>]"
  let ?two = "sample_nbis_print [xyt_new0\<lparr>nrows := 2\<rparr>, xyt_new0\<lparr>nrows := 2\<rparr>]"
  have t: "type sample_raw_print \<noteq> FP_PRINT_NBIS" "type ?one = FP_PRINT_NBIS"
    "type ?two = FP_PRINT_NBIS" "length (prints ?two) \<noteq> 1" "length (prints ?one) = 1"
    by (simp_all add: sample_raw_print_def sample_nbis_print_def fp_print_init_def)
  show ?thesis
    using bz3_match_errors [of sample_raw_print ?one sample_probe_init sample_to_gallery 40]
      bz3_match_errors [of ?one ?two sample_probe_init sample_to_gallery 40]
      bz3_match_errors [of ?one ?one sample_probe_init sample_to_gallery 40]
    by (simp only: t simp_thms)
qed

section \<open>Equality of prints\<close>

lemma xyt_struct_eq_iff:
  "(a :: xyt_struct) = b \<longleftrightarrow>
     nrows a = nrows b \<and> xcol a = xcol b \<and> ycol a = ycol b \<and> thetacol a = thetacol b"
  by (cases a, cases b) auto

lemma prints_memcmp_loop_eq:
  "length as = length bs \<Longrightarrow> prints_memcmp_loop as bs \<longleftrightarrow> as = bs"
  by (induction as bs rule: list_induct2) auto

text \<open>
  C7. For two prints of type \<^verbatim>\<open>FP_PRINT_NBIS\<close>, \<^verbatim>\<open>fp_print_equal\<close> returns
  \<^verbatim>\<open>TRUE\<close> exactly when the types, drivers and device ids are equal, the two arrays
  of prints have the same length, and at each position the two structures agree in
  full: the row count and the whole of each column (every slot of the list, not only the
  first \<^verbatim>\<open>nrows\<close>). The finger, username, description and enroll date of either print
  do not influence the result.
\<close>

theorem fp_print_equal_nbis:
  assumes "type self = FP_PRINT_NBIS" and "type other = FP_PRINT_NBIS"
  shows
    "(fp_print_equal self other \<longleftrightarrow>
        type self = type other \<and> driver self = driver other
        \<and> device_id self = device_id other
        \<and> length (prints self) = length (prints other)
        \<and> (\<forall>i<length (prints self).
              nrows (prints self ! i) = nrows (prints other ! i)
              \<and> xcol (prints self ! i) = xcol (prints other ! i)
              \<and> ycol (prints self ! i) = ycol (prints other ! i)
              \<and> thetacol (prints self ! i) = thetacol (prints other ! i)))
     \<and> fp_print_equal
         (self\<lparr>finger := f, username := u, description := d, enroll_date := e\<rparr>)
         (other\<lparr>finger := f', username := u', description := d', enroll_date := e'\<rparr>)
       = fp_print_equal self other"
proof -
  have "fp_print_equal self other \<longleftrightarrow>
      driver self = driver other \<and> device_id self = device_id other
      \<and> prints self = prints other"
    using assms by (auto simp: fp_print_equal_def prints_memcmp_loop_eq)
  moreover have "prints self = prints other \<longleftrightarrow>
      length (prints self) = length (prints other)
      \<and> (\<forall>i<length (prints self).
              nrows (prints self ! i) = nrows (prints other ! i)
              \<and> xcol (prints self ! i) = xcol (prints other ! i)
              \<and> ycol (prints self ! i) = ycol (prints other ! i)
              \<and> thetacol (prints self ! i) = thetacol (prints other ! i))"
    by (simp add: list_eq_iff_nth_eq xyt_struct_eq_iff)
  moreover have "fp_print_equal
         (self\<lparr>finger := f, username := u, description := d, enroll_date := e\<rparr>)
         (other\<lparr>finger := f', username := u', description := d', enroll_date := e'\<rparr>)
       = fp_print_equal self other"
    by (simp add: fp_print_equal_def)
  ultimately show ?thesis using assms by simp
qed

text \<open>
  Two prints whose single structures have one row each, the same first slots and a
  different value in slot 150 of \<^verbatim>\<open>xcol\<close> are not equal; a print is equal to itself
  whatever its metadata.
\<close>

theorem fp_print_equal_nbis_witness:
  "type (sample_nbis_print [xyt_new0\<lparr>nrows := 1\<rparr>]) = FP_PRINT_NBIS
   \<and> type (sample_nbis_print [xyt_new0\<lparr>nrows := 1, xcol := (xcol xyt_new0)[150 := 9]\<rparr>])
       = FP_PRINT_NBIS
   \<and> \<not> fp_print_equal (sample_nbis_print [xyt_new0\<lparr>nrows := 1\<rparr>])
         (sample_nbis_print [xyt_new0\<lparr>nrows := 1, xcol := (xcol xyt_new0)[150 := 9]\<rparr>])
   \<and> fp_print_equal (sample_nbis_print [xyt_new0\<lparr>nrows := 1\<rparr>])
         ((sample_nbis_print [xyt_new0\<lparr>nrows := 1\<rparr>])
            \<lparr>finger := 3, username := Some ''other'', description := Some ''thumb'',
             enroll_date := Some (GDate_julian 737000)\<rparr>)"
proof -
  let ?a = "sample_nbis_print [xyt_new0\<lparr>nrows := 1\<rparr>]"
  let ?b = "sample_nbis_print [xyt_new0\<lparr>nrows := 1, xcol := (xcol xyt_new0)[150 := 9]\<rparr>]"
  have t: "type ?a = FP_PRINT_NBIS" "type ?b = FP_PRINT_NBIS"
    by (simp_all add: sample_nbis_print_def)
  have "(xcol xyt_new0)[150 := 9] ! 150 \<noteq> xcol xyt_new0 ! 150"
    by (simp add: xyt_new0_def MAX_BOZORTH_MINUTIAE_def)
  then have ne: "xcol xyt_new0 \<noteq> (xcol xyt_new0)[150 := 9]"
    by metis
  have 1: "\<not> fp_print_equal ?a ?b"
    using fp_print_equal_nbis [OF t] ne by (simp add: sample_nbis_print_def)
  have "fp_print_equal ?a ?a"
    using fp_print_equal_nbis [OF t(1) t(1)] by simp
  then have 2: "fp_print_equal ?a
         (?a\<lparr>finger := 3, username := Some ''other'', description := Some ''thumb'',
             enroll_date := Some (GDate_julian 737000)\<rparr>)"
    using fp_print_equal_nbis [OF t(1) t(1), where f = "finger ?a" and u = "username ?a"
        and d = "description ?a" and e = "enroll_date ?a" and f' = 3
        and u' = "Some ''other''" and d' = "Some ''thumb''"
        and e' = "Some (GDate_julian 737000)"]
    by simp
  from t 1 2 show ?thesis by simp
qed

section \<open>Encoding minutiae\<close>

lemma map_nth_upt_length: "map (\<lambda>i. f (xs ! i)) [0..<length xs] = map f xs"
proof -
  have "map (\<lambda>i. f (xs ! i)) [0..<length xs] = map f (map ((!) xs) [0..<length xs])"
    by simp
  then show ?thesis by (simp only: map_nth)
qed

lemma sless_180_iff: "(180 :: 32 word) <s t \<longleftrightarrow> 180 < sint t"
  by (simp add: word_sless_alt)

lemma sint_minus_360:
  assumes "180 < sint (t :: 32 word)"
  shows "sint (t - 360) = sint t - 360"
proof -
  have "sint t < 2 ^ 31" using sint_lt [of t] by simp
  then have "signed_take_bit 31 (sint t - 360) = sint t - 360"
    using assms by (intro signed_take_bit_int_eq_self) auto
  then show ?thesis by (simp add: sint_word_ariths)
qed

lemma minutiae_to_xyt_rows:
  assumes perm: "\<And>c. mset (qsort_sort_x_y c) = mset c"
  shows "\<exists>rows.
      mset rows = mset (map (\<lambda>m. case lfs m w h of
                     (ox, oy, ot) \<Rightarrow> (ox, oy, if 180 <s ot then ot - 360 else ot))
                   (take MAX_BOZORTH_MINUTIAE ms))
    \<and> length rows = min (length ms) MAX_BOZORTH_MINUTIAE
    \<and> minutiae_to_xyt lfs sr qsort_sort_x_y ms w h xyt =
        xyt\<lparr>xcol := map fst rows @ drop (length rows) (xcol xyt),
            ycol := map (\<lambda>r. fst (snd r)) rows @ drop (length rows) (ycol xyt),
            thetacol := map (\<lambda>r. snd (snd r)) rows @ drop (length rows) (thetacol xyt),
            nrows := int (length rows)\<rparr>"
proof -
  define nmin where "nmin = min (length ms) MAX_BOZORTH_MINUTIAE"
  define F where "F = (\<lambda>minutia.
                 case lfs minutia w h of
                   (ox, oy, ot) \<Rightarrow>
                     \<lparr>col = [ox, oy, (if 180 <s ot then ot - 360 else ot), sr minutia]\<rparr>)"
  define c where "c = map F (take nmin ms)"
  define c' where "c' = qsort_sort_x_y c"
  define rows where "rows = map (\<lambda>m. (col m ! 0, col m ! 1, col m ! 2)) c'"
  have len_c: "length c = nmin" by (simp add: c_def nmin_def)
  have "mset c' = mset c" by (simp add: c'_def perm)
  then have len_c': "length c' = nmin" using len_c by (metis size_mset)
  have take_eq: "take nmin ms = take MAX_BOZORTH_MINUTIAE ms"
    by (simp add: nmin_def min_def)
  have "mset rows = image_mset (\<lambda>m. (col m ! 0, col m ! 1, col m ! 2)) (mset c')"
    by (simp add: rows_def)
  also have "\<dots> = image_mset (\<lambda>m. (col m ! 0, col m ! 1, col m ! 2)) (mset c)"
    by (simp add: \<open>mset c' = mset c\<close>)
  also have "\<dots> = mset (map (\<lambda>m. (col m ! 0, col m ! 1, col m ! 2)) c)"
    by simp
  also have "map (\<lambda>m. (col m ! 0, col m ! 1, col m ! 2)) c =
      map (\<lambda>m. case lfs m w h of
                     (ox, oy, ot) \<Rightarrow> (ox, oy, if 180 <s ot then ot - 360 else ot))
                   (take MAX_BOZORTH_MINUTIAE ms)"
    unfolding c_def take_eq map_map
    by (rule map_cong) (simp_all add: F_def split: prod.splits)
  finally have m: "mset rows = mset (map (\<lambda>m. case lfs m w h of
                     (ox, oy, ot) \<Rightarrow> (ox, oy, if 180 <s ot then ot - 360 else ot))
                   (take MAX_BOZORTH_MINUTIAE ms))" .
  have l: "length rows = min (length ms) MAX_BOZORTH_MINUTIAE"
    by (simp add: rows_def len_c' nmin_def)
  have cols: "map (\<lambda>i. col (c' ! i) ! k) [0..<nmin] = map (\<lambda>m. col m ! k) c'" for k
    using map_nth_upt_length [of "\<lambda>m. col m ! k" c'] by (simp add: len_c')
  have "minutiae_to_xyt lfs sr qsort_sort_x_y ms w h xyt =
        xyt\<lparr>xcol := map (\<lambda>m. col m ! 0) c' @ drop nmin (xcol xyt),
            ycol := map (\<lambda>m. col m ! 1) c' @ drop nmin (ycol xyt),
            thetacol := map (\<lambda>m. col m ! 2) c' @ drop nmin (thetacol xyt),
            nrows := int nmin\<rparr>"
    unfolding minutiae_to_xyt_def Let_def
    by (simp only: cols nmin_def [symmetric] F_def [symmetric] c_def [symmetric]
        c'_def [symmetric])
  then have e: "minutiae_to_xyt lfs sr qsort_sort_x_y ms w h xyt =
        xyt\<lparr>xcol := map fst rows @ drop (length rows) (xcol xyt),
            ycol := map (\<lambda>r. fst (snd r)) rows @ drop (length rows) (ycol xyt),
            thetacol := map (\<lambda>r. snd (snd r)) rows @ drop (length rows) (thetacol xyt),
            nrows := int (length rows)\<rparr>"
    by (simp add: rows_def len_c' comp_def)
  from m l e show ?thesis by blast
qed


lemma minutiae_to_xyt_valid:
  assumes perm: "\<And>c. mset (qsort_sort_x_y c) = mset c"
  shows "xyt_valid (minutiae_to_xyt lfs sr qsort_sort_x_y ms w h xyt_new0)"
proof -
  obtain rows where l: "length rows = min (length ms) MAX_BOZORTH_MINUTIAE"
    and e: "minutiae_to_xyt lfs sr qsort_sort_x_y ms w h xyt_new0 =
        xyt_new0\<lparr>xcol := map fst rows @ drop (length rows) (xcol xyt_new0),
            ycol := map (\<lambda>r. fst (snd r)) rows @ drop (length rows) (ycol xyt_new0),
            thetacol := map (\<lambda>r. snd (snd r)) rows @ drop (length rows) (thetacol xyt_new0),
            nrows := int (length rows)\<rparr>"
    using minutiae_to_xyt_rows [OF perm, of lfs w h ms sr xyt_new0] by blast
  have "length rows \<le> MAX_BOZORTH_MINUTIAE" using l by simp
  then show ?thesis
    unfolding e by (simp add: xyt_valid_def xyt_new0_def)
qed

lemma slots_of_rows:
  "map (\<lambda>i. ((map fst rows @ a) ! i, (map (\<lambda>r. fst (snd r)) rows @ b) ! i,
              (map (\<lambda>r. snd (snd r)) rows @ c) ! i)) [0..<length rows] = rows"
  by (rule nth_equalityI) (simp_all add: nth_append)

lemma add_from_image_slots:
  assumes perm: "\<And>c. mset (qsort_sort_x_y c) = mset c"
    and "type print = FP_PRINT_NBIS" and "minutiae img = Some ms" and "ms \<noteq> []"
  shows "\<exists>xyt.
      fpi_print_add_from_image lfs sr qsort_sort_x_y print (Some img) =
        Returned (print\<lparr>prints := prints print @ [xyt], image := Some img\<rparr>)
    \<and> nrows xyt = int (min (length ms) 200)
    \<and> mset (map (\<lambda>i. (xcol xyt ! i, ycol xyt ! i, thetacol xyt ! i))
              [0..<min (length ms) 200])
      = mset (map (\<lambda>m. case lfs m (width img) (height img) of
                     (ox, oy, ot) \<Rightarrow> (ox, oy, if 180 <s ot then ot - 360 else ot))
                (take 200 ms))"
proof -
  obtain rows where m: "mset rows = mset (map (\<lambda>m. case lfs m (width img) (height img) of
                     (ox, oy, ot) \<Rightarrow> (ox, oy, if 180 <s ot then ot - 360 else ot))
                   (take MAX_BOZORTH_MINUTIAE ms))"
    and l: "length rows = min (length ms) MAX_BOZORTH_MINUTIAE"
    and e: "minutiae_to_xyt lfs sr qsort_sort_x_y ms (width img) (height img) xyt_new0 =
        xyt_new0\<lparr>xcol := map fst rows @ drop (length rows) (xcol xyt_new0),
            ycol := map (\<lambda>r. fst (snd r)) rows @ drop (length rows) (ycol xyt_new0),
            thetacol := map (\<lambda>r. snd (snd r)) rows @ drop (length rows) (thetacol xyt_new0),
            nrows := int (length rows)\<rparr>"
    using minutiae_to_xyt_rows [OF perm, of lfs "width img" "height img" ms sr xyt_new0]
    by blast
  let ?xyt = "minutiae_to_xyt lfs sr qsort_sort_x_y ms (width img) (height img) xyt_new0"
  have l': "min (length ms) 200 = length rows"
    using l by (simp add: MAX_BOZORTH_MINUTIAE_def)
  have r: "fpi_print_add_from_image lfs sr qsort_sort_x_y print (Some img) =
        Returned (print\<lparr>prints := prints print @ [?xyt], image := Some img\<rparr>)"
    using assms(2-4) by (simp add: fpi_print_add_from_image_def)
  have n: "nrows ?xyt = int (min (length ms) 200)"
    by (simp add: e l')
  have "map (\<lambda>i. (xcol ?xyt ! i, ycol ?xyt ! i, thetacol ?xyt ! i)) [0..<length rows] = rows"
    by (simp add: e slots_of_rows)
  then have s: "mset (map (\<lambda>i. (xcol ?xyt ! i, ycol ?xyt ! i, thetacol ?xyt ! i))
              [0..<min (length ms) 200])
      = mset (map (\<lambda>m. case lfs m (width img) (height img) of
                     (ox, oy, ot) \<Rightarrow> (ox, oy, if 180 <s ot then ot - 360 else ot))
                (take 200 ms))"
    using m by (simp add: l' MAX_BOZORTH_MINUTIAE_def)
  from r n s show ?thesis by blast
qed

lemma add_from_image_no_minutiae:
  assumes "image_arg = None
           \<or> (\<exists>img. image_arg = Some img \<and> (minutiae img = None \<or> minutiae img = Some []))"
  shows "\<exists>msg. fpi_print_add_from_image lfs sr qsort_sort_x_y print image_arg =
           Failed (GError G_IO_ERROR_INVALID_DATA msg)"
  using assms
  by (auto simp: fpi_print_add_from_image_def cannot_add_from_image_def
      no_minutiae_found_def)

text \<open>
  C8. \<^verbatim>\<open>fpi_print_add_from_image\<close> on a print of type \<^verbatim>\<open>FP_PRINT_NBIS\<close> and an
  image with a non-empty minutiae list appends one structure and keeps the image. The
  structure's \<^verbatim>\<open>nrows\<close> is the smaller of the list's length and 200, and its first
  \<^verbatim>\<open>nrows\<close> slots hold, in sorted order, exactly the transformed triples of the
  first 200 minutiae of the list: all of them when the list has exactly 200 entries,
  all but the last when it has 201. When the minutiae list is empty or absent (or there
  is no image) the call fails with an error of code \<^verbatim>\<open>G_IO_ERROR_INVALID_DATA\<close>.
  The sorting routine is any that returns a rearrangement of its input.
\<close>

theorem add_from_image_retains_first_200:
  assumes perm: "\<And>c. mset (qsort_sort_x_y c) = mset c"
  shows
    "(type print = FP_PRINT_NBIS \<and> minutiae img = Some ms \<and> ms \<noteq> [] \<longrightarrow>
       (\<exists>xyt.
          fpi_print_add_from_image lfs sr qsort_sort_x_y print (Some img) =
            Returned (print\<lparr>prints := prints print @ [xyt], image := Some img\<rparr>)
        \<and> nrows xyt = int (min (length ms) 200)
        \<and> mset (map (\<lambda>i. (xcol xyt ! i, ycol xyt ! i, thetacol xyt ! i))
                  [0..<min (length ms) 200])
          = mset (map (\<lambda>m. case lfs m (width img) (height img) of
                         (ox, oy, ot) \<Rightarrow> (ox, oy, if 180 <s ot then ot - 360 else ot))
                    (take 200 ms))
        \<and> (length ms = 200 \<longrightarrow> nrows xyt = 200 \<and> take 200 ms = ms)
        \<and> (length ms = 201 \<longrightarrow> nrows xyt = 200 \<and> take 200 ms = butlast ms)))
     \<and> (image_arg = None
         \<or> (\<exists>img. image_arg = Some img \<and> (minutiae img = None \<or> minutiae img = Some []))
        \<longrightarrow> (\<exists>msg. fpi_print_add_from_image lfs sr qsort_sort_x_y print image_arg =
                  Failed (GError G_IO_ERROR_INVALID_DATA msg)))"
proof (intro conjI impI)
  assume a: "type print = FP_PRINT_NBIS \<and> minutiae img = Some ms \<and> ms \<noteq> []"
  then obtain xyt where x:
    "fpi_print_add_from_image lfs sr qsort_sort_x_y print (Some img) =
        Returned (print\<lparr>prints := prints print @ [xyt], image := Some img\<rparr>)"
    "nrows xyt = int (min (length ms) 200)"
    "mset (map (\<lambda>i. (xcol xyt ! i, ycol xyt ! i, thetacol xyt ! i))
              [0..<min (length ms) 200])
      = mset (map (\<lambda>m. case lfs m (width img) (height img) of
                     (ox, oy, ot) \<Rightarrow> (ox, oy, if 180 <s ot then ot - 360 else ot))
                (take 200 ms))"
    using add_from_image_slots [OF perm, of print img ms lfs sr] by blast
  have "length ms = 201 \<longrightarrow> take 200 ms = butlast ms"
    by (simp add: butlast_conv_take)
  with x show "\<exists>xyt.
          fpi_print_add_from_image lfs sr qsort_sort_x_y print (Some img) =
            Returned (print\<lparr>prints := prints print @ [xyt], image := Some img\<rparr>)
        \<and> nrows xyt = int (min (length ms) 200)
        \<and> mset (map (\<lambda>i. (xcol xyt ! i, ycol xyt ! i, thetacol xyt ! i))
                  [0..<min (length ms) 200])
          = mset (map (\<lambda>m. case lfs m (width img) (height img) of
                         (ox, oy, ot) \<Rightarrow> (ox, oy, if 180 <s ot then ot - 360 else ot))
                    (take 200 ms))
        \<and> (length ms = 200 \<longrightarrow> nrows xyt = 200 \<and> take 200 ms = ms)
        \<and> (length ms = 201 \<longrightarrow> nrows xyt = 200 \<and> take 200 ms = butlast ms)"
    by (intro exI [of _ xyt]) simp
next
  assume "image_arg = None
         \<or> (\<exists>img. image_arg = Some img \<and> (minutiae img = None \<or> minutiae img = Some []))"
  then show "\<exists>msg. fpi_print_add_from_image lfs sr qsort_sort_x_y print image_arg =
                  Failed (GError G_IO_ERROR_INVALID_DATA msg)"
    by (rule add_from_image_no_minutiae)
qed

lemma sample_qsort_mset: "mset (sample_qsort c) = mset c"
  by (simp add: sample_qsort_def)

text \<open>
  Three minutiae give a structure of three rows; an image with an empty list, and no
  image, give the error.
\<close>

theorem add_from_image_retains_first_200_witness:
  "(\<exists>xyt. fpi_print_add_from_image sample_lfs2nist sample_sround sample_qsort
            (sample_nbis_print []) (Some sample_image)
          = Returned ((sample_nbis_print [])
              \<lparr>prints := prints (sample_nbis_print []) @ [xyt], image := Some sample_image\<rparr>)
        \<and> nrows xyt = 3)
   \<and> (\<exists>msg. fpi_print_add_from_image sample_lfs2nist sample_sround sample_qsort
            (sample_nbis_print []) (Some (sample_image\<lparr>minutiae := Some []\<rparr>))
          = Failed (GError G_IO_ERROR_INVALID_DATA msg))
   \<and> (\<exists>msg. fpi_print_add_from_image sample_lfs2nist sample_sround sample_qsort
            (sample_nbis_print []) None
          = Failed (GError G_IO_ERROR_INVALID_DATA msg))"
proof -
  let ?ms = "[(30, 4, 190), (10, 8, 180), (20, 6, 45)] :: (gint32 \<times> gint32 \<times> gint32) list"
  have h: "type (sample_nbis_print []) = FP_PRINT_NBIS \<and> minutiae sample_image = Some ?ms
      \<and> ?ms \<noteq> []"
    by (simp add: sample_nbis_print_def sample_image_def)
  note a = add_from_image_retains_first_200 [of sample_qsort, OF sample_qsort_mset,
      where print = "sample_nbis_print []" and img = sample_image and ms = ?ms
      and lfs = sample_lfs2nist and sr = sample_sround and image_arg = None]
  note b = add_from_image_retains_first_200 [of sample_qsort, OF sample_qsort_mset,
      where print = "sample_nbis_print []" and img = sample_image and ms = ?ms
      and lfs = sample_lfs2nist and sr = sample_sround
      and image_arg = "Some (sample_image\<lparr>minutiae := Some []\<rparr>)"]
  from a h obtain xyt where
    "fpi_print_add_from_image sample_lfs2nist sample_sround sample_qsort
            (sample_nbis_print []) (Some sample_image)
          = Returned ((sample_nbis_print [])
              \<lparr>prints := prints (sample_nbis_print []) @ [xyt], image := Some sample_image\<rparr>)"
    "nrows xyt = int (min (length ?ms) 200)"
    by blast
  then have 1: "\<exists>xyt. fpi_print_add_from_image sample_lfs2nist sample_sround sample_qsort
            (sample_nbis_print []) (Some sample_image)
          = Returned ((sample_nbis_print [])
              \<lparr>prints := prints (sample_nbis_print []) @ [xyt], image := Some sample_image\<rparr>)
        \<and> nrows xyt = 3"
    by (intro exI [of _ xyt]) simp
  from a have 2: "\<exists>msg. fpi_print_add_from_image sample_lfs2nist sample_sround sample_qsort
            (sample_nbis_print []) None
          = Failed (GError G_IO_ERROR_INVALID_DATA msg)"
    by blast
  have "minutiae (sample_image\<lparr>minutiae := Some []\<rparr>) = Some []"
    by simp
  with b have 3: "\<exists>msg. fpi_print_add_from_image sample_lfs2nist sample_sround sample_qsort
            (sample_nbis_print []) (Some (sample_image\<lparr>minutiae := Some []\<rparr>))
          = Failed (GError G_IO_ERROR_INVALID_DATA msg)"
    by blast
  from 1 2 3 show ?thesis by blast
qed

lemma normalized_theta_facts:
  fixes ot :: "32 word"
  defines "st \<equiv> (if 180 <s ot then ot - 360 else ot)"
  shows "st = (if sint ot \<le> 180 then ot else ot - 360)"
    and "sint ot = 190 \<longrightarrow> sint st = - 170"
    and "sint ot = 180 \<longrightarrow> sint st = 180"
    and "- 180 < sint ot \<and> sint ot \<le> 540 \<longrightarrow> - 180 < sint st \<and> sint st \<le> 180"
  using sint_minus_360 [of ot]
  by (auto simp: st_def sless_180_iff)

text \<open>
  C9. In the structure \<^verbatim>\<open>fpi_print_add_from_image\<close> appends, every slot below
  \<^verbatim>\<open>nrows\<close> holds the triple of one of the first 200 minutiae, and each of those
  minutiae has such a slot. The stored angle is the transformed angle \<open>ot\<close> itself
  when \<open>ot\<close> is at most 180 and \<open>ot - 360\<close> when it exceeds 180: 190 is stored as
  -170 and 180 as 180. Whenever the transformed angle lies in \<open>(-180, 540]\<close>, which
  contains the range \<open>[0, 360]\<close> of the transform, the stored angle lies in
  \<open>(-180, 180]\<close>.
\<close>

theorem stored_theta_normalized:
  assumes perm: "\<And>c. mset (qsort_sort_x_y c) = mset c"
    and "type print = FP_PRINT_NBIS" and "minutiae img = Some ms" and "ms \<noteq> []"
  shows "\<exists>xyt.
      fpi_print_add_from_image lfs sr qsort_sort_x_y print (Some img) =
        Returned (print\<lparr>prints := prints print @ [xyt], image := Some img\<rparr>)
    \<and> (\<forall>i<nat (nrows xyt). \<exists>m\<in>set (take 200 ms).
          case lfs m (width img) (height img) of
            (ox, oy, ot) \<Rightarrow>
              xcol xyt ! i = ox \<and> ycol xyt ! i = oy
              \<and> thetacol xyt ! i = (if sint ot \<le> 180 then ot else ot - 360)
              \<and> (sint ot = 190 \<longrightarrow> sint (thetacol xyt ! i) = - 170)
              \<and> (sint ot = 180 \<longrightarrow> sint (thetacol xyt ! i) = 180)
              \<and> (- 180 < sint ot \<and> sint ot \<le> 540
                   \<longrightarrow> - 180 < sint (thetacol xyt ! i) \<and> sint (thetacol xyt ! i) \<le> 180))
    \<and> (\<forall>m\<in>set (take 200 ms). \<exists>i<nat (nrows xyt).
          case lfs m (width img) (height img) of
            (ox, oy, ot) \<Rightarrow>
              xcol xyt ! i = ox \<and> ycol xyt ! i = oy
              \<and> thetacol xyt ! i = (if sint ot \<le> 180 then ot else ot - 360))"
proof -
  let ?enc = "\<lambda>m. case lfs m (width img) (height img) of
                     (ox, oy, ot) \<Rightarrow> (ox, oy, if 180 <s ot then ot - 360 else ot)"
  obtain xyt where x:
    "fpi_print_add_from_image lfs sr qsort_sort_x_y print (Some img) =
        Returned (print\<lparr>prints := prints print @ [xyt], image := Some img\<rparr>)"
    "nrows xyt = int (min (length ms) 200)"
    "mset (map (\<lambda>i. (xcol xyt ! i, ycol xyt ! i, thetacol xyt ! i))
              [0..<min (length ms) 200])
      = mset (map ?enc (take 200 ms))"
    using add_from_image_slots [OF assms, of lfs sr] by blast
  let ?slot = "\<lambda>i. (xcol xyt ! i, ycol xyt ! i, thetacol xyt ! i)"
  have n: "nat (nrows xyt) = min (length ms) 200" using x(2) by simp
  have sets: "?slot ` {0..<nat (nrows xyt)} = ?enc ` set (take 200 ms)"
    using mset_eq_setD [OF x(3)] by (simp add: n)
  have fwd: "\<exists>m\<in>set (take 200 ms).
          case lfs m (width img) (height img) of
            (ox, oy, ot) \<Rightarrow>
              xcol xyt ! i = ox \<and> ycol xyt ! i = oy
              \<and> thetacol xyt ! i = (if sint ot \<le> 180 then ot else ot - 360)
              \<and> (sint ot = 190 \<longrightarrow> sint (thetacol xyt ! i) = - 170)
              \<and> (sint ot = 180 \<longrightarrow> sint (thetacol xyt ! i) = 180)
              \<and> (- 180 < sint ot \<and> sint ot \<le> 540
                   \<longrightarrow> - 180 < sint (thetacol xyt ! i) \<and> sint (thetacol xyt ! i) \<le> 180)"
    if "i < nat (nrows xyt)" for i
  proof -
    from that have "?slot i \<in> ?enc ` set (take 200 ms)"
      using sets by auto
    then obtain m where m: "m \<in> set (take 200 ms)" "?slot i = ?enc m" by auto
    obtain ox oy ot where l: "lfs m (width img) (height img) = (ox, oy, ot)"
      by (cases "lfs m (width img) (height img)") auto
    from m(2) l have "xcol xyt ! i = ox" "ycol xyt ! i = oy"
      "thetacol xyt ! i = (if 180 <s ot then ot - 360 else ot)" by simp_all
    then show ?thesis
      using m(1) l normalized_theta_facts [of ot]
      by (intro bexI [of _ m]) simp_all
  qed
  have bwd: "\<exists>i<nat (nrows xyt).
          case lfs m (width img) (height img) of
            (ox, oy, ot) \<Rightarrow>
              xcol xyt ! i = ox \<and> ycol xyt ! i = oy
              \<and> thetacol xyt ! i = (if sint ot \<le> 180 then ot else ot - 360)"
    if "m \<in> set (take 200 ms)" for m
  proof -
    from that have "?enc m \<in> ?slot ` {0..<nat (nrows xyt)}"
      using sets by auto
    then obtain i where i: "i < nat (nrows xyt)" "?slot i = ?enc m" by auto
    obtain ox oy ot where l: "lfs m (width img) (height img) = (ox, oy, ot)"
      by (cases "lfs m (width img) (height img)") auto
    from i(2) l have "xcol xyt ! i = ox" "ycol xyt ! i = oy"
      "thetacol xyt ! i = (if 180 <s ot then ot - 360 else ot)" by simp_all
    then show ?thesis
      using i(1) l normalized_theta_facts(1) [of ot]
      by (intro exI [of _ i]) simp
  qed
  from x(1) fwd bwd show ?thesis by blast
qed

text \<open>
  The minutia with transformed angle 190 is stored with angle -170, the one with 180
  with angle 180.
\<close>

theorem stored_theta_normalized_witness:
  "\<exists>xyt. fpi_print_add_from_image sample_lfs2nist sample_sround sample_qsort
            (sample_nbis_print []) (Some sample_image)
          = Returned ((sample_nbis_print [])
              \<lparr>prints := prints (sample_nbis_print []) @ [xyt], image := Some sample_image\<rparr>)
        \<and> (\<exists>i<nat (nrows xyt). xcol xyt ! i = 30 \<and> sint (thetacol xyt ! i) = - 170)
        \<and> (\<exists>i<nat (nrows xyt). xcol xyt ! i = 10 \<and> sint (thetacol xyt ! i) = 180)"
proof -
  let ?ms = "[(30, 4, 190), (10, 8, 180), (20, 6, 45)] :: (gint32 \<times> gint32 \<times> gint32) list"
  have h: "type (sample_nbis_print []) = FP_PRINT_NBIS" "minutiae sample_image = Some ?ms"
      "?ms \<noteq> []"
    by (simp_all add: sample_nbis_print_def sample_image_def)
  from stored_theta_normalized [of sample_qsort, OF sample_qsort_mset h,
      of sample_lfs2nist sample_sround]
  obtain xyt where r:
    "fpi_print_add_from_image sample_lfs2nist sample_sround sample_qsort
            (sample_nbis_print []) (Some sample_image)
          = Returned ((sample_nbis_print [])
              \<lparr>prints := prints (sample_nbis_print []) @ [xyt], image := Some sample_image\<rparr>)"
    and bwd: "\<forall>m\<in>set (take 200 ?ms). \<exists>i<nat (nrows xyt).
          case sample_lfs2nist m (width sample_image) (height sample_image) of
            (ox, oy, ot) \<Rightarrow>
              xcol xyt ! i = ox \<and> ycol xyt ! i = oy
              \<and> thetacol xyt ! i = (if sint ot \<le> 180 then ot else ot - 360)"
    by blast
  have "(30, 4, 190) \<in> set (take 200 ?ms)" "(10, 8, 180) \<in> set (take 200 ?ms)"
    by simp_all
  with bwd have
    "\<exists>i<nat (nrows xyt).
          case sample_lfs2nist (30, 4, 190) (width sample_image) (height sample_image) of
            (ox, oy, ot) \<Rightarrow>
              xcol xyt ! i = ox \<and> ycol xyt ! i = oy
              \<and> thetacol xyt ! i = (if sint ot \<le> 180 then ot else ot - 360)"
    "\<exists>i<nat (nrows xyt).
          case sample_lfs2nist (10, 8, 180) (width sample_image) (height sample_image) of
            (ox, oy, ot) \<Rightarrow>
              xcol xyt ! i = ox \<and> ycol xyt ! i = oy
              \<and> thetacol xyt ! i = (if sint ot \<le> 180 then ot else ot - 360)"
    by blast+
  then have "\<exists>i<nat (nrows xyt). xcol xyt ! i = 30 \<and> sint (thetacol xyt ! i) = - 170"
    "\<exists>i<nat (nrows xyt). xcol xyt ! i = 10 \<and> sint (thetacol xyt ! i) = 180"
    by (auto simp: sample_lfs2nist_def)
  with r show ?thesis by blast
qed

section \<open>Storing and reading back\<close>

subsection \<open>Rejected buffers\<close>

lemma int32_elements_map: "int32_elements (map GV_Int32 ws) = Some ws"
  by (induction ws) auto

lemma deserialize_prints_typed:
  "deserialize_prints
     (map (\<lambda>(xs, ys, ts). GV_Tuple [GV_Array (map GV_Int32 xs), GV_Array (map GV_Int32 ys),
                                     GV_Array (map GV_Int32 ts)]) triples) acc =
   (if \<exists>(xs, ys, ts)\<in>set triples.
         length xs \<noteq> length ys \<or> length xs \<noteq> length ts \<or> 200 < length xs
    then Failed invalid_format
    else Returned
      (acc @ map (\<lambda>(xs, ys, ts).
          \<lparr>nrows = int (length xs),
           xcol = xs @ replicate (200 - length xs) 0,
           ycol = ys @ replicate (200 - length xs) 0,
           thetacol = ts @ replicate (200 - length xs) 0\<rparr>) triples))"
proof (induction triples arbitrary: acc)
  case Nil
  then show ?case by simp
next
  case (Cons t triples)
  obtain xs ys ts where t: "t = (xs, ys, ts)" by (cases t) auto
  show ?case
    by (simp add: t Cons.IH g_variant_get_child_value_def int32_elements_map
        MAX_BOZORTH_MINUTIAE_def xyt_new0_def)
qed

lemma deserialized_xyt_valid:
  assumes "length ys = length xs" and "length ts = length xs" and "length xs \<le> 200"
  shows "xyt_valid \<lparr>nrows = int (length xs),
           xcol = xs @ replicate (200 - length xs) 0,
           ycol = ys @ replicate (200 - length xs) 0,
           thetacol = ts @ replicate (200 - length xs) 0\<rparr>"
  using assms by (simp add: xyt_valid_def MAX_BOZORTH_MINUTIAE_def)

lemma deserialize_short:
  "length data_arg \<le> 3 \<Longrightarrow> fp_print_deserialize parse data_arg = Aborted"
  by (simp add: fp_print_deserialize_def)

lemma deserialize_bad_magic:
  "3 < length data_arg \<Longrightarrow> take 3 data_arg \<noteq> [0x46, 0x50, 0x33] \<Longrightarrow>
     fp_print_deserialize parse data_arg = Failed invalid_format"
  by (simp add: fp_print_deserialize_def FP3_def)

lemma g_object_new_construct_only:
  "g_object_new [PROP_DRIVER (Some drv), PROP_DEVICE_ID (Some dev), PROP_DEVICE_STORED st] =
     Returned (fp_print_init\<lparr>driver := Some drv, device_id := Some dev, device_stored := st\<rparr>)"
  by (simp add: g_object_new_def fp_print_constructed_def)

lemma deserialize_nbis_typed:
  assumes "pv_print_data v =
            GV_Tuple [GV_Array (map (\<lambda>(xs, ys, ts).
                         GV_Tuple [GV_Array (map GV_Int32 xs), GV_Array (map GV_Int32 ys),
                                   GV_Array (map GV_Int32 ts)]) triples)]"
  shows "deserialize_nbis v =
   (if \<exists>(xs, ys, ts)\<in>set triples.
         length xs \<noteq> length ys \<or> length xs \<noteq> length ts \<or> 200 < length xs
    then Failed invalid_format
    else Returned
      (fp_print_init\<lparr>type := FP_PRINT_NBIS, driver := Some (pv_driver v),
         device_id := Some (pv_device_id v), device_stored := pv_device_stored v,
         prints := map (\<lambda>(xs, ys, ts).
          \<lparr>nrows = int (length xs),
           xcol = xs @ replicate (200 - length xs) 0,
           ycol = ys @ replicate (200 - length xs) 0,
           thetacol = ts @ replicate (200 - length xs) 0\<rparr>) triples\<rparr>))"
proof -
  have c: "g_variant_get_child_value (pv_print_data v) 0 =
      Some (GV_Array (map (\<lambda>(xs, ys, ts).
                         GV_Tuple [GV_Array (map GV_Int32 xs), GV_Array (map GV_Int32 ys),
                                   GV_Array (map GV_Int32 ts)]) triples))"
    by (simp add: assms g_variant_get_child_value_def)
  have p: "prints (fpi_print_set_type (fp_print_init\<lparr>driver := Some (pv_driver v),
      device_id := Some (pv_device_id v), device_stored := pv_device_stored v\<rparr>) FP_PRINT_NBIS)
      = []"
    by (simp add: fpi_print_set_type_def fp_print_init_def)
  show ?thesis
    unfolding deserialize_nbis_def c g_object_new_construct_only
    by (simp add: Let_def p deserialize_prints_typed del: deserialize_prints.simps)
      (simp add: fpi_print_set_type_def fp_print_init_def)
qed

lemma deserialize_nbis_reject:
  assumes "3 < length data_arg" and "take 3 data_arg = [0x46, 0x50, 0x33]"
    and "parse (drop 3 data_arg) = Some v"
    and "pv_type v = FpPrintType_code FP_PRINT_NBIS"
    and "pv_print_data v =
            GV_Tuple [GV_Array (map (\<lambda>(xs, ys, ts).
                         GV_Tuple [GV_Array (map GV_Int32 xs), GV_Array (map GV_Int32 ys),
                                   GV_Array (map GV_Int32 ts)]) triples)]"
    and "\<exists>(xs, ys, ts)\<in>set triples.
              length xs \<noteq> length ys \<or> length xs \<noteq> length ts \<or> 200 < length xs"
  shows "(fp_print_deserialize parse data_arg :: 'm FpPrint outcome) = Failed invalid_format"
proof -
  have "(deserialize_nbis v :: 'm FpPrint outcome) = Failed invalid_format"
    using deserialize_nbis_typed [OF assms(5)] assms(6) by simp
  then show ?thesis
    using assms(1-4) by (simp add: fp_print_deserialize_def FP3_def)
qed

text \<open>
  C2. \<^verbatim>\<open>fp_print_deserialize\<close> on a buffer longer than three bytes takes the
  \<^verbatim>\<open>invalid_format\<close> exit, returning no print and the error
  \<^verbatim>\<open>G_IO_ERROR_INVALID_DATA\<close> with the message Data could not be parsed, when
  the first three bytes are not \<^verbatim>\<open>FP3\<close>, and when the body read by GLib has type \<^verbatim>\<open>FP_PRINT_NBIS\<close>
  and a payload of stored prints (three \<^verbatim>\<open>int32\<close> arrays each) among which one has
  arrays of different lengths or of more than 200 entries. A buffer of three bytes or
  fewer does not reach that exit: the assertion \<^verbatim>\<open>g_assert (length > 3)\<close> fails and
  the call does not return.
\<close>

theorem deserialize_rejects:
  "(length data_arg \<le> 3 \<longrightarrow> fp_print_deserialize parse data_arg = Aborted)
   \<and> (3 < length data_arg \<and> take 3 data_arg \<noteq> [0x46, 0x50, 0x33]
        \<longrightarrow> fp_print_deserialize parse data_arg
            = Failed (GError G_IO_ERROR_INVALID_DATA ''Data could not be parsed''))
   \<and> (3 < length data_arg \<and> take 3 data_arg = [0x46, 0x50, 0x33]
        \<and> parse (drop 3 data_arg) = Some v
        \<and> pv_type v = FpPrintType_code FP_PRINT_NBIS
        \<and> pv_print_data v =
            GV_Tuple [GV_Array (map (\<lambda>(xs, ys, ts).
                         GV_Tuple [GV_Array (map GV_Int32 xs), GV_Array (map GV_Int32 ys),
                                   GV_Array (map GV_Int32 ts)]) triples)]
        \<and> (\<exists>(xs, ys, ts)\<in>set triples.
              length xs \<noteq> length ys \<or> length xs \<noteq> length ts \<or> 200 < length xs)
        \<longrightarrow> fp_print_deserialize parse data_arg
            = Failed (GError G_IO_ERROR_INVALID_DATA ''Data could not be parsed''))"
  using deserialize_short [of data_arg parse] deserialize_bad_magic [of data_arg parse]
    deserialize_nbis_reject [of data_arg parse v triples]
  unfolding invalid_format_def by blast

text \<open>
  A buffer of two bytes, a buffer starting with \<^verbatim>\<open>FP2\<close>, and a buffer whose body
  holds a print with an \<open>x\<close> array of two entries and a \<open>y\<close> array of one.
\<close>

theorem deserialize_rejects_witness:
  "(fp_print_deserialize Map.empty [0x46, 0x50] :: unit FpPrint outcome) = Aborted
   \<and> (fp_print_deserialize Map.empty [0x46, 0x50, 0x32, 0] :: unit FpPrint outcome)
       = Failed (GError G_IO_ERROR_INVALID_DATA ''Data could not be parsed'')
   \<and> (fp_print_deserialize [[0] \<mapsto> sample_mismatched_variant] [0x46, 0x50, 0x33, 0]
        :: unit FpPrint outcome)
       = Failed (GError G_IO_ERROR_INVALID_DATA ''Data could not be parsed'')"
proof -
  note a = deserialize_rejects [where data_arg = "[0x46, 0x50]" and parse = Map.empty
      and 'a = unit]
  note b = deserialize_rejects [where data_arg = "[0x46, 0x50, 0x32, 0]" and parse = Map.empty
      and 'a = unit]
  note c = deserialize_rejects [where data_arg = "[0x46, 0x50, 0x33, 0]"
      and parse = "[[0] \<mapsto> sample_mismatched_variant]" and v = sample_mismatched_variant
      and triples = "[([1, 2], [3], [4, 5])]" and 'a = unit]
  have 1: "(fp_print_deserialize Map.empty [0x46, 0x50] :: unit FpPrint outcome) = Aborted"
    using a by simp
  have 2: "(fp_print_deserialize Map.empty [0x46, 0x50, 0x32, 0] :: unit FpPrint outcome)
       = Failed (GError G_IO_ERROR_INVALID_DATA ''Data could not be parsed'')"
    using b by simp
  have 3: "(fp_print_deserialize [[0] \<mapsto> sample_mismatched_variant] [0x46, 0x50, 0x33, 0]
        :: unit FpPrint outcome)
       = Failed (GError G_IO_ERROR_INVALID_DATA ''Data could not be parsed'')"
    using c by (simp add: sample_mismatched_variant_def)
  from 1 2 3 show ?thesis by simp
qed

text \<open>
  The three bytes \<^verbatim>\<open>FP3\<close> alone are shorter than four bytes and are not rejected
  with an error: the assertion fails.
\<close>

theorem deserialize_short_buffer_aborts:
  "(fp_print_deserialize Map.empty [0x46, 0x50, 0x33] :: unit FpPrint outcome) = Aborted
   \<and> (fp_print_deserialize Map.empty [0x46, 0x50, 0x33] :: unit FpPrint outcome)
       \<noteq> Failed (GError G_IO_ERROR_INVALID_DATA ''Data could not be parsed'')"
  by (simp add: fp_print_deserialize_def)

subsection \<open>Serializing\<close>

lemma build_variant_eq:
  assumes "driver print = Some drv" and "device_id print = Some dev"
  shows "fp_print_build_variant print =
     map_option (\<lambda>payload.
        \<lparr>pv_type = FpPrintType_code (type print),
         pv_driver = drv,
         pv_device_id = dev,
         pv_device_stored = device_stored print,
         pv_finger = word_of_int (finger print),
         pv_username = username print,
         pv_description = description print,
         pv_julian_date =
           (case enroll_date print of
              None \<Rightarrow> G_MININT32
            | Some d \<Rightarrow> if g_date_valid d then g_date_get_julian d else G_MININT32),
         pv_expansion = [],
         pv_print_data = payload\<rparr>)
       (if type print = FP_PRINT_NBIS
        then Some (GV_Tuple [GV_Array (map xyt_to_variant (prints print))])
        else map_option GV_Variant (data print))"
  unfolding fp_print_build_variant_def assms
  by (simp split: option.split)

lemma serialize_never_fails: "fp_print_serialize store print \<noteq> Failed e"
  by (simp add: fp_print_serialize_def split: option.split)

lemma serialize_returns:
  assumes "driver print = Some drv" and "device_id print = Some dev"
    and "type print = FP_PRINT_NBIS \<or> data print = Some dat"
  shows "fp_print_serialize store print =
     Returned ([0x46, 0x50, 0x33] @
       store \<lparr>pv_type = FpPrintType_code (type print),
              pv_driver = drv,
              pv_device_id = dev,
              pv_device_stored = device_stored print,
              pv_finger = word_of_int (finger print),
              pv_username = username print,
              pv_description = description print,
              pv_julian_date =
                (case enroll_date print of
                   None \<Rightarrow> G_MININT32
                 | Some d \<Rightarrow> if g_date_valid d then g_date_get_julian d else G_MININT32),
              pv_expansion = [],
              pv_print_data =
                (if type print = FP_PRINT_NBIS
                 then GV_Tuple [GV_Array (map xyt_to_variant (prints print))]
                 else GV_Variant dat)\<rparr>)"
  using assms(3)
  unfolding fp_print_serialize_def build_variant_eq [OF assms(1,2)]
  by (auto simp: FP3_def)

text \<open>
  C3. For every print that has a driver and a device id and either is of type
  \<^verbatim>\<open>FP_PRINT_NBIS\<close> or holds raw data, \<^verbatim>\<open>fp_print_serialize\<close> returns
  \<^verbatim>\<open>TRUE\<close> with the buffer \<^verbatim>\<open>FP3\<close> followed by the stored form of this tuple:
  the type code (0 for \<^verbatim>\<open>FP_PRINT_UNDEFINED\<close>, 1 for \<^verbatim>\<open>FP_PRINT_RAW\<close>, 2 for
  \<^verbatim>\<open>FP_PRINT_NBIS\<close>), the driver, the device id, the stored flag, the finger byte,
  the username, the description, the Julian day of a valid enroll date or
  \<^verbatim>\<open>G_MININT32\<close>, the empty extension map, and as payload the array of prints for
  \<^verbatim>\<open>FP_PRINT_NBIS\<close> and the boxed raw data otherwise. This covers the types
  \<^verbatim>\<open>FP_PRINT_NBIS\<close> and \<^verbatim>\<open>FP_PRINT_RAW\<close>; an undefined print that holds raw
  data is written in the same way, its raw data under type code 0. The function has no
  error exit: for no print does it fail with an error.
\<close>

theorem serialize_has_no_error_result:
  "(driver print = Some drv \<and> device_id print = Some dev
      \<and> (type print = FP_PRINT_NBIS \<or> data print = Some dat)
     \<longrightarrow> fp_print_serialize store print =
          Returned ([0x46, 0x50, 0x33] @
            store \<lparr>pv_type = (case type print of
                                 FP_PRINT_UNDEFINED \<Rightarrow> 0
                               | FP_PRINT_RAW \<Rightarrow> 1
                               | FP_PRINT_NBIS \<Rightarrow> 2),
                   pv_driver = drv,
                   pv_device_id = dev,
                   pv_device_stored = device_stored print,
                   pv_finger = word_of_int (finger print),
                   pv_username = username print,
                   pv_description = description print,
                   pv_julian_date =
                     (case enroll_date print of
                        None \<Rightarrow> 0x80000000
                      | Some d \<Rightarrow>
                          if g_date_valid d then g_date_get_julian d else 0x80000000),
                   pv_expansion = [],
                   pv_print_data =
                     (if type print = FP_PRINT_NBIS
                      then GV_Tuple [GV_Array (map xyt_to_variant (prints print))]
                      else GV_Variant dat)\<rparr>))
   \<and> (\<forall>e. fp_print_serialize store print \<noteq> Failed e)"
proof -
  have c: "FpPrintType_code (type print) =
      (case type print of FP_PRINT_UNDEFINED \<Rightarrow> 0 | FP_PRINT_RAW \<Rightarrow> 1 | FP_PRINT_NBIS \<Rightarrow> 2)"
    by (cases "type print") simp_all
  show ?thesis
    using serialize_returns [of print drv dev dat store] serialize_never_fails [of store print]
    unfolding c G_MININT32_def by simp
qed

text \<open>
  The raw sample print is stored with type code 1 and its raw data, whatever GLib's
  stored form is.
\<close>

theorem serialize_has_no_error_result_witness:
  "driver sample_raw_print = Some ''driver'' \<and> device_id sample_raw_print = Some ''device''
   \<and> data sample_raw_print = Some (GV_String ''template'')
   \<and> (\<forall>store. fp_print_serialize store sample_raw_print =
          Returned ([0x46, 0x50, 0x33] @
            store \<lparr>pv_type = 1, pv_driver = ''driver'', pv_device_id = ''device'',
                   pv_device_stored = False, pv_finger = 7, pv_username = Some ''user'',
                   pv_description = None, pv_julian_date = 0x80000000, pv_expansion = [],
                   pv_print_data = GV_Variant (GV_String ''template'')\<rparr>))"
proof -
  have h: "driver sample_raw_print = Some ''driver''"
    "device_id sample_raw_print = Some ''device''"
    "data sample_raw_print = Some (GV_String ''template'')"
    and f: "type sample_raw_print = FP_PRINT_RAW" "device_stored sample_raw_print = False"
      "finger sample_raw_print = 7" "username sample_raw_print = Some ''user''"
      "description sample_raw_print = None" "enroll_date sample_raw_print = None"
    by (simp_all add: sample_raw_print_def fp_print_init_def)
  have "fp_print_serialize store sample_raw_print =
          Returned ([0x46, 0x50, 0x33] @
            store \<lparr>pv_type = 1, pv_driver = ''driver'', pv_device_id = ''device'',
                   pv_device_stored = False, pv_finger = 7, pv_username = Some ''user'',
                   pv_description = None, pv_julian_date = 0x80000000, pv_expansion = [],
                   pv_print_data = GV_Variant (GV_String ''template'')\<rparr>)" for store
    using serialize_has_no_error_result [of sample_raw_print "''driver''" "''device''"
        "GV_String ''template''" store] h
    by (simp add: f)
  with h show ?thesis by simp
qed

text \<open>
  A print of type \<^verbatim>\<open>FP_PRINT_UNDEFINED\<close> that holds raw data: the call returns, and
  the tuple it hands to GLib carries type code 0 and the raw data. No error is reported.
\<close>

theorem serialize_undefined_returns:
  "type sample_undefined_print = FP_PRINT_UNDEFINED
   \<and> fp_print_serialize sample_store sample_undefined_print
       = Returned ([0x46, 0x50, 0x33] @
           sample_store \<lparr>pv_type = 0, pv_driver = ''driver'', pv_device_id = ''device'',
                  pv_device_stored = False, pv_finger = 0, pv_username = None,
                  pv_description = None, pv_julian_date = 0x80000000, pv_expansion = [],
                  pv_print_data = GV_Variant (GV_String ''template'')\<rparr>)
   \<and> fp_print_serialize sample_store sample_undefined_print
       = Returned [0x46, 0x50, 0x33, 0]"
  by (simp add: fp_print_serialize_def fp_print_build_variant_def sample_undefined_print_def
      fp_print_init_def sample_store_def FP3_def G_MININT32_def)

subsection \<open>Reading back what was stored\<close>

lemma g_date_new_julian_eq:
  "g_date_new_julian j = (if j = 0 then None else Some (GDate_julian j))"
  by (simp add: g_date_new_julian_def g_date_valid_julian_def word_greater_zero_iff)

lemma g_object_set_metadata:
  "g_object_set result [PROP_FINGER f, PROP_USERNAME u, PROP_DESCRIPTION d,
       PROP_ENROLL_DATE e] =
     Returned (result\<lparr>finger := f, username := u, description := d, enroll_date := e\<rparr>)"
  by (simp add: g_object_set_def)

lemma deserialize_Returned:
  assumes "fp_print_deserialize parse data_arg = Returned r"
  shows "\<exists>v result. parse (drop 3 data_arg) = Some v
     \<and> r = result\<lparr>finger := uint (pv_finger v), username := pv_username v,
           description := pv_description v,
           enroll_date := g_date_new_julian (pv_julian_date v)\<rparr>"
proof -
  from assms obtain v where v: "parse (drop 3 data_arg) = Some v"
    by (auto simp: fp_print_deserialize_def split: if_splits option.splits)
  from assms v obtain result where
    "g_object_set result
       [PROP_FINGER (uint (pv_finger v)),
        PROP_USERNAME (pv_username v),
        PROP_DESCRIPTION (pv_description v),
        PROP_ENROLL_DATE (g_date_new_julian (pv_julian_date v))] = Returned r"
    by (auto simp: fp_print_deserialize_def split: if_splits outcome.splits)
  with v show ?thesis by (auto simp: g_object_set_metadata)
qed

lemma map_nth_upt_take: "n \<le> length xs \<Longrightarrow> map (\<lambda>j. xs ! j) [0..<n] = take n xs"
  by (rule nth_equalityI) simp_all

lemma int32_elements_map_upt:
  "int32_elements (map (\<lambda>j. GV_Int32 (f j)) js) = Some (map f js)"
  by (induction js) auto

lemma deserialize_prints_step:
  assumes "xyt_valid p"
  shows "deserialize_prints (xyt_to_variant p # rest) acc = deserialize_prints rest (acc @ [p])"
proof -
  let ?n = "nat (nrows p)"
  from assms have n: "?n \<le> 200" "length (xcol p) = 200" "length (ycol p) = 200"
    "length (thetacol p) = 200" "int ?n = nrows p"
    and pad: "drop ?n (xcol p) = replicate (200 - ?n) 0"
      "drop ?n (ycol p) = replicate (200 - ?n) 0"
      "drop ?n (thetacol p) = replicate (200 - ?n) 0"
    by (auto simp: xyt_valid_def MAX_BOZORTH_MINUTIAE_def)
  have cols: "map (\<lambda>j. xcol p ! j) [0..<?n] = take ?n (xcol p)"
    "map (\<lambda>j. ycol p ! j) [0..<?n] = take ?n (ycol p)"
    "map (\<lambda>j. thetacol p ! j) [0..<?n] = take ?n (thetacol p)"
    using n by (simp_all add: map_nth_upt_take)
  have rebuilt: "xyt_new0\<lparr>nrows := int ?n,
                xcol := take ?n (xcol p) @ drop ?n (xcol xyt_new0),
                ycol := take ?n (ycol p) @ drop ?n (ycol xyt_new0),
                thetacol := take ?n (thetacol p) @ drop ?n (thetacol xyt_new0)\<rparr> = p"
  proof -
    have "take ?n (xcol p) @ replicate (200 - ?n) 0 = xcol p"
      "take ?n (ycol p) @ replicate (200 - ?n) 0 = ycol p"
      "take ?n (thetacol p) @ replicate (200 - ?n) 0 = thetacol p"
      using append_take_drop_id [of ?n "xcol p"] append_take_drop_id [of ?n "ycol p"]
        append_take_drop_id [of ?n "thetacol p"]
      by (simp_all only: pad)
    then show ?thesis
      using n(5) by (simp add: xyt_new0_def MAX_BOZORTH_MINUTIAE_def)
  qed
  have len: "length (take ?n (xcol p)) = ?n" "length (take ?n (ycol p)) = ?n"
    "length (take ?n (thetacol p)) = ?n"
    using n by simp_all
  have "deserialize_prints (xyt_to_variant p # rest) acc =
      deserialize_prints rest (acc @ [xyt_new0\<lparr>nrows := int ?n,
                xcol := take ?n (xcol p) @ drop ?n (xcol xyt_new0),
                ycol := take ?n (ycol p) @ drop ?n (ycol xyt_new0),
                thetacol := take ?n (thetacol p) @ drop ?n (thetacol xyt_new0)\<rparr>])"
    using n
    by (simp add: xyt_to_variant_def g_variant_get_child_value_def int32_elements_map_upt
        cols min_absorb2 MAX_BOZORTH_MINUTIAE_def)
  then show ?thesis by (simp only: rebuilt)
qed

lemma deserialize_prints_valid:
  "\<forall>p\<in>set ps. xyt_valid p \<Longrightarrow>
     deserialize_prints (map xyt_to_variant ps) acc = Returned (acc @ ps)"
proof (induction ps arbitrary: acc)
  case Nil
  then show ?case by simp
next
  case (Cons p ps)
  then show ?case
    by (simp add: deserialize_prints_step del: deserialize_prints.simps)
qed

lemma deserialize_raw_variant:
  assumes "pv_print_data v = GV_Variant dat"
  shows "deserialize_raw v =
     Returned (fp_print_init\<lparr>type := FP_PRINT_RAW, driver := Some (pv_driver v),
        device_id := Some (pv_device_id v), device_stored := pv_device_stored v,
        data := Some dat\<rparr>)"
  by (simp add: deserialize_raw_def assms g_variant_get_child_value_def g_object_new_def
      fp_print_constructed_def fpi_print_set_type_def fp_print_init_def)

lemma deserialize_nbis_valid:
  assumes "pv_print_data v = GV_Tuple [GV_Array (map xyt_to_variant ps)]"
    and "\<forall>p\<in>set ps. xyt_valid p"
  shows "deserialize_nbis v =
     Returned (fp_print_init\<lparr>type := FP_PRINT_NBIS, driver := Some (pv_driver v),
        device_id := Some (pv_device_id v), device_stored := pv_device_stored v,
        prints := ps\<rparr>)"
proof -
  have c: "g_variant_get_child_value (pv_print_data v) 0 =
      Some (GV_Array (map xyt_to_variant ps))"
    by (simp add: assms(1) g_variant_get_child_value_def)
  have p: "prints (fpi_print_set_type (fp_print_init\<lparr>driver := Some (pv_driver v),
      device_id := Some (pv_device_id v), device_stored := pv_device_stored v\<rparr>) FP_PRINT_NBIS)
      = []"
    by (simp add: fpi_print_set_type_def fp_print_init_def)
  show ?thesis
    unfolding deserialize_nbis_def c g_object_new_construct_only
    by (simp add: Let_def p deserialize_prints_valid [OF assms(2)]
        del: deserialize_prints.simps)
      (simp add: fpi_print_set_type_def fp_print_init_def)
qed

lemma deserialize_after_header:
  assumes "bytes \<noteq> []" and "parse bytes = Some v"
  shows "fp_print_deserialize parse (FP3 @ bytes) =
     (case (if pv_type v = FpPrintType_code FP_PRINT_NBIS then deserialize_nbis v
            else if pv_type v = FpPrintType_code FP_PRINT_RAW then deserialize_raw v
            else Failed invalid_format) of
        Aborted \<Rightarrow> Aborted
      | Failed e \<Rightarrow> Failed e
      | Returned result \<Rightarrow>
          Returned (result\<lparr>finger := uint (pv_finger v), username := pv_username v,
             description := pv_description v,
             enroll_date := g_date_new_julian (pv_julian_date v)\<rparr>))"
proof -
  have "length (FP3 @ bytes) > 3" "take 3 (FP3 @ bytes) = FP3" "drop 3 (FP3 @ bytes) = bytes"
    using assms(1) by (simp_all add: FP3_def)
  then show ?thesis
    unfolding fp_print_deserialize_def g_object_set_metadata
    by (simp only: assms(2) not_not if_True if_False option.case simp_thms)
qed

lemma roundtrip_result:
  fixes r :: "'m FpPrint"
  assumes contract:
      "\<And>v. fp_print_build_variant r = Some v \<Longrightarrow> parse (store v) = Some v \<and> store v \<noteq> []"
    and d: "driver r = Some drv" "device_id r = Some dev"
    and k: "type r = FP_PRINT_RAW \<and> data r = Some dat
            \<or> type r = FP_PRINT_NBIS \<and> (\<forall>p\<in>set (prints r). xyt_valid p)"
  shows "\<exists>buf. fp_print_serialize store r = Returned buf
     \<and> (fp_print_deserialize parse buf :: 'm FpPrint outcome) =
        Returned (fp_print_init
          \<lparr>type := type r, driver := driver r, device_id := device_id r,
           device_stored := device_stored r,
           finger := uint (word_of_int (finger r) :: 8 word),
           username := username r, description := description r,
           enroll_date := g_date_new_julian
             (case enroll_date r of
                None \<Rightarrow> G_MININT32
              | Some dt \<Rightarrow> if g_date_valid dt then g_date_get_julian dt else G_MININT32),
           data := (if type r = FP_PRINT_RAW then data r else None),
           prints := (if type r = FP_PRINT_NBIS then prints r else [])\<rparr>)"
proof -
  let ?payload = "if type r = FP_PRINT_NBIS
        then GV_Tuple [GV_Array (map xyt_to_variant (prints r))]
        else GV_Variant dat"
  let ?v = "\<lparr>pv_type = FpPrintType_code (type r),
         pv_driver = drv,
         pv_device_id = dev,
         pv_device_stored = device_stored r,
         pv_finger = word_of_int (finger r),
         pv_username = username r,
         pv_description = description r,
         pv_julian_date =
           (case enroll_date r of
              None \<Rightarrow> G_MININT32
            | Some d \<Rightarrow> if g_date_valid d then g_date_get_julian d else G_MININT32),
         pv_expansion = [],
         pv_print_data = ?payload\<rparr>"
  have b: "fp_print_build_variant r = Some ?v"
    using k unfolding build_variant_eq [OF d] by auto
  then have s: "fp_print_serialize store r = Returned (FP3 @ store ?v)"
    by (simp add: fp_print_serialize_def)
  from contract [OF b] have p: "parse (store ?v) = Some ?v" and ne: "store ?v \<noteq> []"
    by simp_all
  from k have "(fp_print_deserialize parse (FP3 @ store ?v) :: 'm FpPrint outcome) =
        Returned (fp_print_init
          \<lparr>type := type r, driver := driver r, device_id := device_id r,
           device_stored := device_stored r,
           finger := uint (word_of_int (finger r) :: 8 word),
           username := username r, description := description r,
           enroll_date := g_date_new_julian
             (case enroll_date r of
                None \<Rightarrow> G_MININT32
              | Some dt \<Rightarrow> if g_date_valid dt then g_date_get_julian dt else G_MININT32),
           data := (if type r = FP_PRINT_RAW then data r else None),
           prints := (if type r = FP_PRINT_NBIS then prints r else [])\<rparr>)"
  proof
    assume a: "type r = FP_PRINT_RAW \<and> data r = Some dat"
    then have "deserialize_raw ?v =
       (Returned (fp_print_init\<lparr>type := FP_PRINT_RAW, driver := Some drv,
        device_id := Some dev, device_stored := device_stored r,
        data := Some dat\<rparr>) :: 'm FpPrint outcome)"
      using deserialize_raw_variant [of ?v dat] by simp
    then show ?thesis
      unfolding deserialize_after_header [of "store ?v" parse ?v, OF ne p]
      using a d by (simp add: fp_print_init_def)
  next
    assume a: "type r = FP_PRINT_NBIS \<and> (\<forall>p\<in>set (prints r). xyt_valid p)"
    then have "deserialize_nbis ?v =
       (Returned (fp_print_init\<lparr>type := FP_PRINT_NBIS, driver := Some drv,
        device_id := Some dev, device_stored := device_stored r,
        prints := prints r\<rparr>) :: 'm FpPrint outcome)"
      using deserialize_nbis_valid [of ?v "prints r"] by simp
    then show ?thesis
      unfolding deserialize_after_header [of "store ?v" parse ?v, OF ne p]
      using a d by (simp add: fp_print_init_def)
  qed
  with s show ?thesis by simp
qed

lemma sample_raw_variant:
  "fp_print_build_variant sample_raw_print =
     Some \<lparr>pv_type = 1, pv_driver = ''driver'', pv_device_id = ''device'',
           pv_device_stored = False, pv_finger = 7, pv_username = Some ''user'',
           pv_description = None, pv_julian_date = G_MININT32, pv_expansion = [],
           pv_print_data = GV_Variant (GV_String ''template'')\<rparr>"
  by (simp add: fp_print_build_variant_def sample_raw_print_def fp_print_init_def)

lemma sample_contract:
  assumes "fp_print_build_variant sample_raw_print = Some v"
  shows "sample_new_from_data (sample_store v) = Some v \<and> sample_store v \<noteq> []"
proof -
  from assms have "pv_finger v = 7"
    unfolding sample_raw_variant by auto
  then show ?thesis
    using assms by (simp add: sample_store_def sample_new_from_data_def)
qed

lemma sample_deserialize:
  "fp_print_deserialize sample_new_from_data [0x46, 0x50, 0x33, 7] =
     Returned (sample_raw_print\<lparr>enroll_date := Some (GDate_julian 0x80000000)\<rparr>)"
proof -
  have "fp_print_deserialize sample_new_from_data (FP3 @ [7]) =
     Returned (sample_raw_print\<lparr>enroll_date := Some (GDate_julian 0x80000000)\<rparr>)"
    unfolding deserialize_after_header [of "[7]" sample_new_from_data
        "\<lparr>pv_type = 1, pv_driver = ''driver'', pv_device_id = ''device'',
           pv_device_stored = False, pv_finger = 7, pv_username = Some ''user'',
           pv_description = None, pv_julian_date = G_MININT32, pv_expansion = [],
           pv_print_data = GV_Variant (GV_String ''template'')\<rparr>",
        simplified sample_new_from_data_def sample_raw_variant, simplified]
    by (simp add: deserialize_raw_def g_variant_get_child_value_def g_object_new_def
        fp_print_constructed_def fpi_print_set_type_def fp_print_init_def
        sample_raw_print_def g_date_new_julian_eq G_MININT32_def)
  then show ?thesis by (simp add: FP3_def)
qed

text \<open>
  C4. When \<^verbatim>\<open>fp_print_deserialize\<close> returns a print, its enroll date is what
  \<^verbatim>\<open>g_date_new_julian\<close> makes of the stored 32-bit field read as unsigned: unset
  when the field is 0, and otherwise the date with that Julian day number. The value
  \<^verbatim>\<open>G_MININT32\<close>, which \<^verbatim>\<open>fp_print_serialize\<close> writes for a print without a
  date, is \<open>2147483648\<close> as unsigned and gives the date with that day number, not an
  unset date.
\<close>

theorem deserialize_enroll_date:
  assumes "fp_print_deserialize parse data_arg = Returned r"
  shows "\<exists>v. parse (drop 3 data_arg) = Some v
     \<and> enroll_date r = (if pv_julian_date v = 0 then None
                        else Some (GDate_julian (pv_julian_date v)))
     \<and> (pv_julian_date v = G_MININT32 \<longrightarrow> enroll_date r = Some (GDate_julian 0x80000000))"
proof -
  from deserialize_Returned [OF assms] obtain v result where
    v: "parse (drop 3 data_arg) = Some v"
    and r: "r = result\<lparr>finger := uint (pv_finger v), username := pv_username v,
           description := pv_description v,
           enroll_date := g_date_new_julian (pv_julian_date v)\<rparr>"
    by blast
  have "enroll_date r = (if pv_julian_date v = 0 then None
                        else Some (GDate_julian (pv_julian_date v)))"
    by (simp add: r g_date_new_julian_eq)
  then show ?thesis using v by (auto simp: G_MININT32_def)
qed

text \<open>
  The stored form of the raw sample print, which has no enroll date, is read back with
  the enroll date set to day \<open>2147483648\<close>.
\<close>

theorem deserialize_enroll_date_witness:
  "\<exists>(r :: (gint32 \<times> gint32 \<times> gint32) FpPrint) v.
       fp_print_deserialize sample_new_from_data [0x46, 0x50, 0x33, 7] = Returned r
     \<and> sample_new_from_data (drop 3 [0x46, 0x50, 0x33, 7]) = Some v
     \<and> pv_julian_date v = G_MININT32
     \<and> enroll_date r = Some (GDate_julian 0x80000000)"
proof -
  from deserialize_enroll_date [OF sample_deserialize] obtain v where
    v: "sample_new_from_data (drop 3 [0x46, 0x50, 0x33, 7]) = Some v"
    and e: "pv_julian_date v = G_MININT32 \<longrightarrow>
       enroll_date (sample_raw_print\<lparr>enroll_date := Some (GDate_julian 0x80000000)\<rparr>)
         = Some (GDate_julian 0x80000000)"
    by blast
  from v have "pv_julian_date v = G_MININT32"
    by (auto simp: sample_new_from_data_def sample_raw_variant)
  with v e sample_deserialize have
    "fp_print_deserialize sample_new_from_data [0x46, 0x50, 0x33, 7]
       = Returned (sample_raw_print\<lparr>enroll_date := Some (GDate_julian 0x80000000)\<rparr>)
     \<and> sample_new_from_data (drop 3 [0x46, 0x50, 0x33, 7]) = Some v
     \<and> pv_julian_date v = G_MININT32
     \<and> enroll_date (sample_raw_print\<lparr>enroll_date := Some (GDate_julian 0x80000000)\<rparr>)
         = Some (GDate_julian 0x80000000)"
    by (simp only: simp_thms)
  then show ?thesis by (intro exI)
qed

text \<open>
  C1. Let \<open>r\<close> be a print with a driver and a device id that is raw and holds raw
  data, or is of type \<^verbatim>\<open>FP_PRINT_NBIS\<close> with prints of the shape this file creates,
  and whose finger fits the stored byte; let GLib read back the tuple it stored for
  \<open>r\<close> (from a non-empty sequence of bytes). Then \<^verbatim>\<open>fp_print_serialize\<close> returns a
  buffer, \<^verbatim>\<open>fp_print_deserialize\<close> returns a print from it, the two prints are
  equal for \<^verbatim>\<open>fp_print_equal\<close>, and finger, username and description are the same.
  The enroll date is the same when \<open>r\<close> has a valid one (with a Julian day other than
  0); when \<open>r\<close> has none, the print read back has the date with day number
  \<open>2147483648\<close>.
\<close>

theorem roundtrip_except_unset_date:
  fixes r :: "'m FpPrint"
  assumes contract:
      "\<And>v. fp_print_build_variant r = Some v \<Longrightarrow> parse (store v) = Some v \<and> store v \<noteq> []"
    and "driver r \<noteq> None" and "device_id r \<noteq> None"
    and "type r = FP_PRINT_RAW \<and> data r \<noteq> None
         \<or> type r = FP_PRINT_NBIS \<and> (\<forall>p\<in>set (prints r). xyt_valid p)"
    and "0 \<le> finger r" and "finger r < 256"
  shows "\<exists>buf r'. fp_print_serialize store r = Returned buf
     \<and> (fp_print_deserialize parse buf :: 'm FpPrint outcome) = Returned r'
     \<and> fp_print_equal r r'
     \<and> finger r' = finger r \<and> username r' = username r \<and> description r' = description r
     \<and> (\<forall>j. enroll_date r = Some (GDate_julian j) \<and> j \<noteq> 0
            \<longrightarrow> enroll_date r' = enroll_date r)
     \<and> (enroll_date r = None \<longrightarrow> enroll_date r' = Some (GDate_julian 0x80000000))"
proof -
  obtain drv dev where d: "driver r = Some drv" "device_id r = Some dev"
    using assms(2,3) by auto
  obtain dat where k: "type r = FP_PRINT_RAW \<and> data r = Some dat
            \<or> type r = FP_PRINT_NBIS \<and> (\<forall>p\<in>set (prints r). xyt_valid p)"
    using assms(4) by auto
  let ?r' = "fp_print_init
          \<lparr>type := type r, driver := driver r, device_id := device_id r,
           device_stored := device_stored r,
           finger := uint (word_of_int (finger r) :: 8 word),
           username := username r, description := description r,
           enroll_date := g_date_new_julian
             (case enroll_date r of
                None \<Rightarrow> G_MININT32
              | Some dt \<Rightarrow> if g_date_valid dt then g_date_get_julian dt else G_MININT32),
           data := (if type r = FP_PRINT_RAW then data r else None),
           prints := (if type r = FP_PRINT_NBIS then prints r else [])\<rparr> :: 'm FpPrint"
  from roundtrip_result [of r parse store, OF contract d k] obtain buf where
    b: "fp_print_serialize store r = Returned buf"
      "(fp_print_deserialize parse buf :: 'm FpPrint outcome) = Returned ?r'"
    by blast
  have eq: "fp_print_equal r ?r'"
    using k by (auto simp: fp_print_equal_def prints_memcmp_loop_eq)
  have f: "finger ?r' = finger r"
    using assms(5,6) by (simp add: uint_word_of_int_eq take_bit_int_eq_self)
  have m: "username ?r' = username r" "description ?r' = description r"
    by simp_all
  have dt: "\<forall>j. enroll_date r = Some (GDate_julian j) \<and> j \<noteq> 0
            \<longrightarrow> enroll_date ?r' = enroll_date r"
    by (simp add: g_date_new_julian_eq)
  have un: "enroll_date r = None \<longrightarrow> enroll_date ?r' = Some (GDate_julian 0x80000000)"
    by (simp add: g_date_new_julian_eq G_MININT32_def)
  have "fp_print_serialize store r = Returned buf
     \<and> (fp_print_deserialize parse buf :: 'm FpPrint outcome) = Returned ?r'
     \<and> fp_print_equal r ?r'
     \<and> finger ?r' = finger r \<and> username ?r' = username r
     \<and> description ?r' = description r
     \<and> (\<forall>j. enroll_date r = Some (GDate_julian j) \<and> j \<noteq> 0
            \<longrightarrow> enroll_date ?r' = enroll_date r)
     \<and> (enroll_date r = None \<longrightarrow> enroll_date ?r' = Some (GDate_julian 0x80000000))"
    using b eq f m dt un by (simp only: simp_thms)
  then show ?thesis by (intro exI)
qed

text \<open>
  The raw sample print has no enroll date; read back from its stored form it is equal
  for \<^verbatim>\<open>fp_print_equal\<close> and has an enroll date.
\<close>

theorem roundtrip_except_unset_date_witness:
  "enroll_date sample_raw_print = None
   \<and> (\<exists>buf r'. fp_print_serialize sample_store sample_raw_print = Returned buf
        \<and> fp_print_deserialize sample_new_from_data buf = Returned r'
        \<and> fp_print_equal sample_raw_print r'
        \<and> enroll_date r' = Some (GDate_julian 0x80000000))"
proof -
  have h: "driver sample_raw_print \<noteq> None" "device_id sample_raw_print \<noteq> None"
    "type sample_raw_print = FP_PRINT_RAW \<and> data sample_raw_print \<noteq> None
         \<or> type sample_raw_print = FP_PRINT_NBIS
           \<and> (\<forall>p\<in>set (prints sample_raw_print). xyt_valid p)"
    "0 \<le> finger sample_raw_print" "finger sample_raw_print < 256"
    and n: "enroll_date sample_raw_print = None"
    by (simp_all add: sample_raw_print_def fp_print_init_def)
  from roundtrip_except_unset_date [of sample_raw_print sample_new_from_data sample_store,
      OF sample_contract h]
  obtain buf r' where "fp_print_serialize sample_store sample_raw_print = Returned buf"
    "fp_print_deserialize sample_new_from_data buf = Returned r'"
    "fp_print_equal sample_raw_print r'"
    "enroll_date sample_raw_print = None
       \<longrightarrow> enroll_date r' = Some (GDate_julian 0x80000000)"
    by auto
  with n have "fp_print_serialize sample_store sample_raw_print = Returned buf
        \<and> fp_print_deserialize sample_new_from_data buf = Returned r'
        \<and> fp_print_equal sample_raw_print r'
        \<and> enroll_date r' = Some (GDate_julian 0x80000000)"
    by (simp only: simp_thms)
  then have "\<exists>buf r'. fp_print_serialize sample_store sample_raw_print = Returned buf
        \<and> fp_print_deserialize sample_new_from_data buf = Returned r'
        \<and> fp_print_equal sample_raw_print r'
        \<and> enroll_date r' = Some (GDate_julian 0x80000000)"
    by (intro exI)
  with n show ?thesis by (simp only: simp_thms)
qed

end
